theory Spec2Isabelle
  imports Main "HOL-Library.Sublist"
begin

section \<open>JavaScript values and the runtime operations the script relies on\<close>

text \<open>
  The page script \<^verbatim>\<open>src/static/app.js\<close> works on values that come out of
  \<^verbatim>\<open>response.json()\<close>. They are dynamically typed, so the model keeps them
  as a datatype of parsed JSON values, with \<open>JUndefined\<close> for the result of reading a
  property that is not there.

  \<^item> \<open>JNum\<close> carries an integer: the number values the program meets are counts and
    capacities. A number of JavaScript is a double; an integer \<open>n\<close> stands for the number
    of that value, which exists and is printed with the decimal digits of \<open>n\<close> when
    \<open>n\<close> is a safe integer (\<open>safe_integer\<close> below, less than \<open>2 ^ 53\<close> in magnitude).
    Every statement below that reads the text of a number is stated for safe integers.
    Fractions are outside the model.
  \<^item> \<open>JObj\<close> lists the own properties of an object in the order in which
    \<^verbatim>\<open>Object.entries\<close> enumerates them; a key is looked up with \<open>map_of\<close>.
  \<^item> A \<open>string\<close> is the list of the UTF-8 bytes of the text; a pair of surrogates is
    the four bytes of its code point. A string of JavaScript can also hold a surrogate
    that has no partner; it is written as the three bytes that the surrogate has as a
    code point (\<open>0xED\<close>, then a byte from \<open>0xA0\<close> on, then a third byte), which occur
    in no other way. The program depends on the length of a string only through its
    being empty or not.
\<close>

datatype jsval =
    JUndefined
  | JNull
  | JBool bool
  | JNum int
  | JStr string
  | JArr "jsval list"
  | JObj "(string \<times> jsval) list"

text \<open>
  What a \<^verbatim>\<open>catch\<close> clause of the script can receive, named by its cause: the
  \<^verbatim>\<open>fetch\<close> promise rejected, \<^verbatim>\<open>response.json()\<close> rejected, an operation on a
  value threw a \<^verbatim>\<open>TypeError\<close>, or \<^verbatim>\<open>encodeURIComponent\<close> threw a \<^verbatim>\<open>URIError\<close>.
\<close>

datatype error = FetchFailed | JsonSyntaxError | TypeError | URIError

definition and_then :: "error + 'a \<Rightarrow> ('a \<Rightarrow> error + 'b) \<Rightarrow> error + 'b" where
  "and_then m f = (case m of Inl e \<Rightarrow> Inl e | Inr x \<Rightarrow> f x)"

fun digits :: "nat \<Rightarrow> string" where
  "digits n = (if n < 10 then [''0123456789'' ! n]
               else digits (n div 10) @ [''0123456789'' ! (n mod 10)])"

definition safe_integer :: "int \<Rightarrow> bool" where
  "safe_integer n = (\<bar>n\<bar> < 2 ^ 53)"

text \<open>
  The text of a number that is a safe integer: its sign and its decimal digits. (Beyond
  the safe integers the runtime prints the shortest digits that identify the double,
  which this function does not compute.)
\<close>

definition number_to_string :: "int \<Rightarrow> string" where
  "number_to_string n = (if n < 0 then ''-'' @ digits (nat (- n)) else digits (nat n))"

fun join_results :: "(error + string) list \<Rightarrow> error + string" where
  "join_results [] = Inr []"
| "join_results [r] = r"
| "join_results (r # rs) =
     and_then r (\<lambda>s. and_then (join_results rs) (\<lambda>t. Inr (s @ '','' @ t)))"

text \<open>
  \<^verbatim>\<open>ToString\<close>, as a template literal applies it to a substituted value and as the
  \<^verbatim>\<open>textContent\<close> setter applies it. An array is joined with commas, \<^verbatim>\<open>null\<close>
  and \<^verbatim>\<open>undefined\<close> elements giving the empty string. A plain object prints as
  \<^verbatim>\<open>[object Object]\<close>, unless it has an own property \<^verbatim>\<open>toString\<close>: a value parsed
  from JSON is never callable, so the conversion to a primitive finds no usable method
  and throws a \<^verbatim>\<open>TypeError\<close>.
\<close>

fun to_string :: "jsval \<Rightarrow> error + string" where
  "to_string JUndefined = Inr ''undefined''"
| "to_string JNull = Inr ''null''"
| "to_string (JBool b) = Inr (if b then ''true'' else ''false'')"
| "to_string (JNum n) = Inr (number_to_string n)"
| "to_string (JStr s) = Inr s"
| "to_string (JArr xs) =
     join_results (map (\<lambda>x. if x = JNull \<or> x = JUndefined then Inr [] else to_string x) xs)"
| "to_string (JObj kvs) =
     (if ''toString'' \<in> fst ` set kvs then Inl TypeError else Inr ''[object Object]'')"

text \<open>
  \<^verbatim>\<open>ToNumber\<close> on an operand of \<^verbatim>\<open>-\<close>, where only the question whether it throws
  reaches the program (the difference is never used): it throws exactly when the
  conversion to a primitive does, which is when \<open>to_string\<close> does.
\<close>

definition to_number_ok :: "jsval \<Rightarrow> error + unit" where
  "to_number_ok v = and_then (to_string v) (\<lambda>_. Inr ())"

text \<open>
  The comparison \<^verbatim>\<open>v > 0\<close>. The number a string converts to is decided by the
  runtime's numeric-literal grammar, which the script does not define; the model takes
  the one fact it needs as a parameter: \<open>pos s\<close> says that the string \<open>s\<close> converts to
  a number greater than zero. An object without usable conversion throws; any other
  object converts to \<^verbatim>\<open>NaN\<close>, which is not greater than zero.
\<close>

fun gt_zero :: "(string \<Rightarrow> bool) \<Rightarrow> jsval \<Rightarrow> error + bool" where
  "gt_zero pos JUndefined = Inr False"
| "gt_zero pos JNull = Inr False"
| "gt_zero pos (JBool b) = Inr b"
| "gt_zero pos (JNum n) = Inr (0 < n)"
| "gt_zero pos (JStr s) = Inr (pos s)"
| "gt_zero pos (JArr xs) = and_then (to_string (JArr xs)) (\<lambda>s. Inr (pos s))"
| "gt_zero pos (JObj kvs) = and_then (to_string (JObj kvs)) (\<lambda>_. Inr False)"

text \<open>Truthiness, as \<^verbatim>\<open>||\<close> tests it.\<close>

fun truthy :: "jsval \<Rightarrow> bool" where
  "truthy JUndefined = False"
| "truthy JNull = False"
| "truthy (JBool b) = b"
| "truthy (JNum n) = (n \<noteq> 0)"
| "truthy (JStr s) = (s \<noteq> [])"
| "truthy (JArr xs) = True"
| "truthy (JObj kvs) = True"

text \<open>
  Reading a property \<^verbatim>\<open>v.p\<close>. The model covers the names the script reads
  (\<^verbatim>\<open>max_participants\<close>, \<^verbatim>\<open>participants\<close>, \<^verbatim>\<open>description\<close>, \<^verbatim>\<open>schedule\<close>,
  \<^verbatim>\<open>detail\<close> and \<^verbatim>\<open>length\<close>): none of them is defined by a built-in prototype
  except \<^verbatim>\<open>length\<close> on strings and arrays, so the result is the own property or
  \<^verbatim>\<open>undefined\<close>. Reading a property of \<^verbatim>\<open>null\<close> or \<^verbatim>\<open>undefined\<close> throws.
\<close>

fun get_prop :: "string \<Rightarrow> jsval \<Rightarrow> error + jsval" where
  "get_prop p JUndefined = Inl TypeError"
| "get_prop p JNull = Inl TypeError"
| "get_prop p (JBool b) = Inr JUndefined"
| "get_prop p (JNum n) = Inr JUndefined"
| "get_prop p (JStr s) = Inr (if p = ''length'' then JNum (int (length s)) else JUndefined)"
| "get_prop p (JArr xs) = Inr (if p = ''length'' then JNum (int (length xs)) else JUndefined)"
| "get_prop p (JObj kvs) = Inr (case map_of kvs p of Some v \<Rightarrow> v | None \<Rightarrow> JUndefined)"

definition indexed :: "'a list \<Rightarrow> (string \<times> 'a) list" where
  "indexed xs = zip (map digits [0..<length xs]) xs"

text \<open>
  \<^verbatim>\<open>Object.entries(v)\<close>: throws on \<^verbatim>\<open>null\<close>, is empty for a boolean or a number,
  and enumerates the characters of a string and the elements of an array under their
  indices.
\<close>

fun object_entries :: "jsval \<Rightarrow> error + (string \<times> jsval) list" where
  "object_entries JUndefined = Inl TypeError"
| "object_entries JNull = Inl TypeError"
| "object_entries (JBool b) = Inr []"
| "object_entries (JNum n) = Inr []"
| "object_entries (JStr s) = Inr (indexed (map (\<lambda>c. JStr [c]) s))"
| "object_entries (JArr xs) = Inr (indexed xs)"
| "object_entries (JObj kvs) = Inr kvs"

fun sequence :: "(error + 'a) list \<Rightarrow> error + 'a list" where
  "sequence [] = Inr []"
| "sequence (r # rs) = and_then r (\<lambda>x. and_then (sequence rs) (\<lambda>xs. Inr (x # xs)))"

text \<open>
  The call \<^verbatim>\<open>v.map(f)\<close>: only an array has a callable \<^verbatim>\<open>map\<close>; on every other
  value the call throws a \<^verbatim>\<open>TypeError\<close>. The callback runs on the elements in order
  and the first exception ends the call.
\<close>

fun array_map :: "(jsval \<Rightarrow> error + 'a) \<Rightarrow> jsval \<Rightarrow> error + 'a list" where
  "array_map f (JArr xs) = sequence (map f xs)"
| "array_map f v = Inl TypeError"


section \<open>The page: elements, form, timers, console and network\<close>

text \<open>
  The script reads and writes four elements of the page, a clock with pending timers,
  the console and the network. Each becomes a field of the state.
\<close>

record card =
  className :: string
  innerHTML :: string

text \<open>
  A child of the \<^verbatim>\<open>#activities-list\<close> element: markup that was assigned to the
  list's \<^verbatim>\<open>innerHTML\<close>, or a \<^verbatim>\<open>div\<close> element that was appended.
\<close>

datatype node = Markup string | Element card

text \<open>
  An \<^verbatim>\<open>option\<close> element of the select control: its value and text, whether it is
  selected now, whether it carries the \<^verbatim>\<open>selected\<close> attribute (which a reset goes
  back to) and whether it is disabled.
\<close>

record option_el =
  ovalue :: string
  otextContent :: string
  selected :: bool
  defaultSelected :: bool
  disabled :: bool

record message_el =
  textContent :: string
  classList :: "string list"

record form =
  email_value :: string
  activity_value :: string

record request =
  http_method :: string
  url :: string

text \<open>
  A response as the script can observe it: its status, and its body as
  \<^verbatim>\<open>response.json()\<close> delivers it (\<open>None\<close> when that promise rejects). The
  \<^verbatim>\<open>fetch\<close> promise itself resolves with a response or rejects.
\<close>

record response =
  status :: nat
  body :: "jsval option"

datatype fetch_outcome = Rejected | Resolved response

definition ok :: "response \<Rightarrow> bool" where
  "ok r = (200 \<le> status r \<and> status r \<le> 299)"

text \<open>
  \<open>activitySelect\<close> holds the options of the select control \<^verbatim>\<open>#activity\<close>, which
  is taken to be a drop-down (no \<^verbatim>\<open>multiple\<close>, no \<^verbatim>\<open>size\<close>). \<open>email_input\<close> is
  the value of the input \<^verbatim>\<open>#email\<close> and \<open>email_defaultValue\<close> the value that the
  page's markup declares for it; the markup is not part of the script, so the options
  and the default the page starts with are left open. \<open>timers\<close> holds the due time of
  every pending \<^verbatim>\<open>setTimeout\<close> callback; all callbacks of the script do the same
  thing (they hide the message). \<open>now\<close> is the clock in milliseconds. \<open>requests\<close>
  records the requests issued so far.
\<close>

record state =
  activities :: jsval
  activitiesList :: "node list"
  activitySelect :: "option_el list"
  email_input :: string
  email_defaultValue :: string
  messageDiv :: message_el
  timers :: "nat list"
  now :: nat
  console :: "(string \<times> error) list"
  requests :: "request list"

subsection \<open>The select control and the form\<close>

text \<open>
  The value of the select control: the value of its first selected option, or the
  empty string when no option is selected.
\<close>

definition select_value :: "option_el list \<Rightarrow> string" where
  "select_value opts = (case filter selected opts of [] \<Rightarrow> [] | x # _ \<Rightarrow> ovalue x)"

fun select_first_enabled :: "option_el list \<Rightarrow> option_el list" where
  "select_first_enabled [] = []"
| "select_first_enabled (x # xs) =
     (if disabled x then x # select_first_enabled xs else x\<lparr>selected := True\<rparr> # xs)"

fun keep_last_selected :: "option_el list \<Rightarrow> option_el list" where
  "keep_last_selected [] = []"
| "keep_last_selected (x # xs) =
     (if selected x \<and> list_ex selected xs then x\<lparr>selected := False\<rparr> else x) #
     keep_last_selected xs"

text \<open>
  The selectedness setting algorithm of a drop-down, which the browser runs when an
  option is inserted and when the control is reset: with no option selected, the first
  option that is not disabled becomes selected; with several selected, only the last
  stays selected.
\<close>

definition selectedness_setting :: "option_el list \<Rightarrow> option_el list" where
  "selectedness_setting opts =
     (if list_ex selected opts then keep_last_selected opts else select_first_enabled opts)"

text \<open>
  An option as the script creates it (lines 46 to 48 and 63 to 65), and
  \<^verbatim>\<open>select.appendChild(option)\<close>.
\<close>

definition new_option :: "string \<Rightarrow> option_el" where
  "new_option name =
     \<lparr>ovalue = name, otextContent = name, selected = False, defaultSelected = False,
      disabled = False\<rparr>"

definition appendChild_option :: "option_el \<Rightarrow> option_el list \<Rightarrow> option_el list" where
  "appendChild_option x opts = selectedness_setting (opts @ [x])"

text \<open>
  Resetting the select control: every option goes back to its \<^verbatim>\<open>selected\<close>
  attribute, then the selectedness setting algorithm runs.
\<close>

definition reset_select :: "option_el list \<Rightarrow> option_el list" where
  "reset_select opts = selectedness_setting (map (\<lambda>x. x\<lparr>selected := defaultSelected x\<rparr>) opts)"

text \<open>
  The contents of the signup form: what \<^verbatim>\<open>document.getElementById("email").value\<close>
  and \<^verbatim>\<open>document.getElementById("activity").value\<close> read.
\<close>

definition signupForm :: "state \<Rightarrow> form" where
  "signupForm st =
     \<lparr>email_value = email_input st, activity_value = select_value (activitySelect st)\<rparr>"

subsection \<open>Class tokens\<close>

definition is_space :: "char \<Rightarrow> bool" where
  "is_space c = (c \<in> {CHR 0x09, CHR 0x0A, CHR 0x0C, CHR 0x0D, CHR 0x20})"

fun split_spaces :: "string \<Rightarrow> string \<Rightarrow> string list" where
  "split_spaces acc [] = (if acc = [] then [] else [acc])"
| "split_spaces acc (c # cs) =
     (if is_space c then (if acc = [] then split_spaces [] cs else acc # split_spaces [] cs)
      else split_spaces (acc @ [c]) cs)"

text \<open>
  The token set of a \<^verbatim>\<open>class\<close> attribute: split at white space, each token kept at
  its first occurrence.
\<close>

definition class_tokens :: "string \<Rightarrow> string list" where
  "class_tokens s = rev (remdups (rev (split_spaces [] s)))"

definition classList_add :: "string \<Rightarrow> string list \<Rightarrow> string list" where
  "classList_add t ts = (if t \<in> set ts then ts else ts @ [t])"

definition classList_remove :: "string \<Rightarrow> string list \<Rightarrow> string list" where
  "classList_remove t ts = removeAll t ts"

definition visible :: "state \<Rightarrow> bool" where
  "visible st = (''hidden'' \<notin> set (classList (messageDiv st)))"

subsection \<open>Timers\<close>

definition setTimeout_hide :: "nat \<Rightarrow> state \<Rightarrow> state" where
  "setTimeout_hide delay st = st\<lparr>timers := timers st @ [now st + delay]\<rparr>"

text \<open>
  Time passes between two handlers of the script: \<open>advance d\<close> moves the clock by
  \<open>d\<close> milliseconds and runs the callback of every timer that has become due (each adds
  the class \<^verbatim>\<open>hidden\<close> to the message element). A timer is taken to fire at its due
  time.
\<close>

definition advance :: "nat \<Rightarrow> state \<Rightarrow> state" where
  "advance d st =
     (let t = now st + d;
          due = filter (\<lambda>x. x \<le> t) (timers st);
          m = messageDiv st
      in st\<lparr>now := t,
            timers := filter (\<lambda>x. \<not> x \<le> t) (timers st),
            messageDiv := (if due = [] then m
                           else m\<lparr>classList := classList_add ''hidden'' (classList m)\<rparr>)\<rparr>)"

subsection \<open>showMessage (lines 114 to 123)\<close>

text \<open>
  The message element is kept as its text and the token list of its \<^verbatim>\<open>class\<close>
  attribute: assigning \<^verbatim>\<open>className\<close> sets the tokens of the assigned string, and
  \<^verbatim>\<open>classList.remove\<close> and \<^verbatim>\<open>classList.add\<close> work on the tokens.
\<close>

definition showMessage :: "string \<Rightarrow> string \<Rightarrow> state \<Rightarrow> state" where
  "showMessage text type st =
     setTimeout_hide 5000
       (st\<lparr>messageDiv :=
             \<lparr>textContent = text,
              classList = classList_remove ''hidden'' (class_tokens (''message '' @ type))\<rparr>\<rparr>)"

section \<open>Loading and rendering the activities (lines 10 to 56)\<close>

definition fetchActivities_catch :: "error \<Rightarrow> state \<Rightarrow> state" where
  "fetchActivities_catch e st =
     st\<lparr>activitiesList := [Markup ''<p>Failed to load activities. Please try again later.</p>''],
        console := console st @ [(''Error fetching activities:'', e)]\<rparr>"

text \<open>
  The markup of the participants of one activity (lines 25 to 30); \<open>list_item\<close> is the
  template literal of line 28.
\<close>

definition list_item :: "string \<Rightarrow> string" where
  "list_item s = ''<li>'' @ s @ ''</li>''"

definition participantsList :: "(string \<Rightarrow> bool) \<Rightarrow> jsval \<Rightarrow> error + string" where
  \<open>participantsList pos details =
     and_then (get_prop ''participants'' details) (\<lambda>ps.
     and_then (get_prop ''length'' ps) (\<lambda>len.
     and_then (gt_zero pos len) (\<lambda>some.
       if some
       then and_then
              (array_map
                 (\<lambda>email. and_then (to_string email) (\<lambda>s. Inr (list_item s))) ps)
              (\<lambda>items. Inr (''<ul class="participants-list">'' @ concat items @ ''</ul>''))
       else Inr ''<p class="no-participants">No participants yet</p>'')))\<close>

abbreviation nl :: string where
  "nl \<equiv> [CHR 0x0A]"

text \<open>
  The template literal of lines 32 to 41, with the line breaks and the indentation of
  the source file.
\<close>

definition card_template ::
  "string \<Rightarrow> string \<Rightarrow> string \<Rightarrow> string \<Rightarrow> string \<Rightarrow> string \<Rightarrow> string" where
  \<open>card_template name description schedule len max_participants plist =
     nl @ ''          <h4>'' @ name @ ''</h4>'' @
     nl @ ''          <p><strong>Description:</strong> '' @ description @ ''</p>'' @
     nl @ ''          <p><strong>Schedule:</strong> '' @ schedule @ ''</p>'' @
     nl @ ''          <p><strong>Capacity:</strong> '' @ len @ ''/'' @ max_participants @ ''</p>'' @
     nl @ ''          <div class="participants-section">'' @
     nl @ ''            <p><strong>Current Participants:</strong></p>'' @
     nl @ ''            '' @ plist @
     nl @ ''          </div>'' @
     nl @ ''        ''\<close>

text \<open>
  The body of the \<^verbatim>\<open>forEach\<close> callback up to the finished card (lines 20 to 41):
  the reads and conversions of \<^verbatim>\<open>spotsLeft\<close> (line 23), the participants markup, and
  the substitutions of the template literal from left to right.
\<close>

definition activityCard :: "(string \<Rightarrow> bool) \<Rightarrow> string \<Rightarrow> jsval \<Rightarrow> error + card" where
  "activityCard pos name details =
     and_then (get_prop ''max_participants'' details) (\<lambda>mp.
     and_then (get_prop ''participants'' details) (\<lambda>ps.
     and_then (get_prop ''length'' ps) (\<lambda>len.
     and_then (to_number_ok mp) (\<lambda>_.
     and_then (to_number_ok len) (\<lambda>_.
     and_then (participantsList pos details) (\<lambda>plist.
     and_then (get_prop ''description'' details) (\<lambda>d.
     and_then (to_string d) (\<lambda>description.
     and_then (get_prop ''schedule'' details) (\<lambda>s.
     and_then (to_string s) (\<lambda>schedule.
     and_then (to_string len) (\<lambda>len_text.
     and_then (to_string mp) (\<lambda>mp_text.
       Inr \<lparr>className = ''activity-card'',
            innerHTML = card_template name description schedule len_text mp_text plist\<rparr>
     ))))))))))))"

text \<open>
  The \<^verbatim>\<open>forEach\<close> loop (lines 19 to 50). Each entry appends its card to the list and
  its option to the select control; an exception ends the loop and leaves what earlier
  entries appended.
\<close>

fun forEach_entry ::
  "(string \<Rightarrow> bool) \<Rightarrow> (string \<times> jsval) list \<Rightarrow> state \<Rightarrow> state \<times> error option" where
  "forEach_entry pos [] st = (st, None)"
| "forEach_entry pos ((name, details) # rest) st =
     (case activityCard pos name details of
        Inl e \<Rightarrow> (st, Some e)
      | Inr c \<Rightarrow>
          forEach_entry pos rest
            (st\<lparr>activitiesList := activitiesList st @ [Element c],
                 activitySelect := appendChild_option (new_option name) (activitySelect st)\<rparr>))"

text \<open>
  \<^verbatim>\<open>fetchActivities\<close> is asynchronous: it issues the request (line 12) and goes on
  when the response has arrived. \<open>fetchActivities_request\<close> is the first part,
  \<open>fetchActivities_response\<close> the rest, given what the request came to;
  \<open>fetchActivities\<close> is a load from its request to its end. The script starts a load
  when the page has loaded (line 126) and after every successful signup (line 97).
\<close>

definition fetchActivities_request :: "state \<Rightarrow> state" where
  "fetchActivities_request st =
     st\<lparr>requests := requests st @ [\<lparr>http_method = ''GET'', url = ''/activities''\<rparr>]\<rparr>"

definition fetchActivities_response ::
  "(string \<Rightarrow> bool) \<Rightarrow> fetch_outcome \<Rightarrow> state \<Rightarrow> state" where
  "fetchActivities_response pos outcome st =
     (case outcome of
        Rejected \<Rightarrow> fetchActivities_catch FetchFailed st
      | Resolved r \<Rightarrow>
          (case body r of
             None \<Rightarrow> fetchActivities_catch JsonSyntaxError st
           | Some v \<Rightarrow>
               (let st1 = st\<lparr>activities := v, activitiesList := []\<rparr> in
                case object_entries v of
                  Inl e \<Rightarrow> fetchActivities_catch e st1
                | Inr entries \<Rightarrow>
                    (case forEach_entry pos entries st1 of
                       (st2, None) \<Rightarrow> st2
                     | (st2, Some e) \<Rightarrow> fetchActivities_catch e st2))))"

definition fetchActivities :: "(string \<Rightarrow> bool) \<Rightarrow> fetch_outcome \<Rightarrow> state \<Rightarrow> state" where
  "fetchActivities pos outcome st =
     fetchActivities_response pos outcome (fetchActivities_request st)"

text \<open>
  Whether the rendering of a parsed body (lines 16 to 50) throws: \<^verbatim>\<open>Object.entries\<close>
  throws, or the callback throws on an entry.
\<close>

definition rendering_throws :: "(string \<Rightarrow> bool) \<Rightarrow> jsval \<Rightarrow> bool" where
  "rendering_throws pos v =
     (case object_entries v of
        Inl e \<Rightarrow> True
      | Inr entries \<Rightarrow> list_ex (\<lambda>(name, details). isl (activityCard pos name details)) entries)"

subsection \<open>populateActivitySelect (lines 58 to 68)\<close>

text \<open>
  The script defines this function and never calls it. It replaces the content of the
  select control by a placeholder option (the markup assigned in line 60) and appends
  one option per key of \<^verbatim>\<open>activities\<close>.
\<close>

definition placeholder_option :: option_el where
  "placeholder_option =
     \<lparr>ovalue = '''', otextContent = ''-- Select an activity --'', selected = False,
      defaultSelected = False, disabled = False\<rparr>"

definition populateActivitySelect :: "state \<Rightarrow> state \<times> error option" where
  "populateActivitySelect st =
     (let st1 = st\<lparr>activitySelect := selectedness_setting [placeholder_option]\<rparr>
      in case object_entries (activities st) of
           Inl e \<Rightarrow> (st1, Some e)
         | Inr entries \<Rightarrow>
             (st1\<lparr>activitySelect :=
                    foldl (\<lambda>opts name. appendChild_option (new_option name) opts)
                      (activitySelect st1) (map fst entries)\<rparr>,
              None))"

section \<open>The submit handler of the signup form (lines 71 to 112)\<close>

text \<open>
  \<^verbatim>\<open>encodeURIComponent\<close>: it throws a \<^verbatim>\<open>URIError\<close> on a string that holds a
  surrogate without its partner; otherwise every byte of the UTF-8 form but the
  unreserved characters becomes a percent sign and two upper-case hexadecimal digits.
  In the bytes of a string, the byte \<open>0xED\<close> followed by a byte from \<open>0xA0\<close> on
  begins such a surrogate.
\<close>

fun lone_surrogate :: "string \<Rightarrow> bool" where
  "lone_surrogate (c # d # cs) =
     ((of_char c = (0xED :: nat) \<and> (0xA0 :: nat) \<le> of_char d) \<or> lone_surrogate (d # cs))"
| "lone_surrogate cs = False"


definition unreserved :: "char \<Rightarrow> bool" where
  "unreserved c =
     (c \<in> set (''ABCDEFGHIJKLMNOPQRSTUVWXYZabcdefghijklmnopqrstuvwxyz0123456789-_.!~*()'' @
               [CHR 0x27]))"

definition hex_digit :: "nat \<Rightarrow> char" where
  "hex_digit k = ''0123456789ABCDEF'' ! k"

definition percent_encode :: "char \<Rightarrow> string" where
  "percent_encode c =
     (if unreserved c then [c]
      else [CHR ''%'', hex_digit (of_char c div 16), hex_digit (of_char c mod 16)])"

definition encodeURIComponent :: "string \<Rightarrow> error + string" where
  "encodeURIComponent s =
     (if lone_surrogate s then Inl URIError else Inr (concat (map percent_encode s)))"

text \<open>
  The request of lines 83 to 90; the template literal encodes the activity first, then
  the email.
\<close>

definition signup_request :: "string \<Rightarrow> string \<Rightarrow> error + request" where
  "signup_request activity email =
     and_then (encodeURIComponent activity) (\<lambda>a.
     and_then (encodeURIComponent email) (\<lambda>e.
       Inr \<lparr>http_method = ''POST'',
            url = ''/activities/'' @ a @ ''/signup?email='' @ e\<rparr>))"

text \<open>
  The handler up to its \<^verbatim>\<open>await\<close> (lines 72 to 90): it reads the two fields, and
  either reports the missing field and returns, or builds the request inside the
  \<^verbatim>\<open>try\<close> block (an exception of the encoding ends in the \<^verbatim>\<open>catch\<close> clause, and
  no request is issued) and issues it. The boolean says whether a request is now
  awaited.
\<close>

definition submit_catch :: "error \<Rightarrow> state \<Rightarrow> state" where
  "submit_catch e st =
     (showMessage ''Failed to sign up. Please try again.'' ''error'' st)
       \<lparr>console := console st @ [(''Error signing up:'', e)]\<rparr>"

definition submit_begin :: "state \<Rightarrow> state \<times> bool" where
  "submit_begin st =
     (let email = email_value (signupForm st); activity = activity_value (signupForm st) in
      if email = [] \<or> activity = []
      then (showMessage ''Please fill in all fields'' ''error'' st, False)
      else
        (case signup_request activity email of
           Inl e \<Rightarrow> (submit_catch e st, False)
         | Inr request \<Rightarrow> (st\<lparr>requests := requests st @ [request]\<rparr>, True)))"

text \<open>Lines 102 to 107: the message is unhidden once more and a second timer is set.\<close>

definition submit_finish :: "state \<Rightarrow> state" where
  "submit_finish st =
     setTimeout_hide 5000
       (st\<lparr>messageDiv :=
             (messageDiv st)\<lparr>classList := classList_remove ''hidden'' (classList (messageDiv st))\<rparr>\<rparr>)"

text \<open>
  \<^verbatim>\<open>signupForm.reset()\<close>: the input goes back to the value its markup declares, and
  the select control is reset.
\<close>

definition form_reset :: "state \<Rightarrow> state" where
  "form_reset st =
     st\<lparr>email_input := email_defaultValue st,
        activitySelect := reset_select (activitySelect st)\<rparr>"

text \<open>
  The handler after its \<^verbatim>\<open>await\<close> (lines 92 to 111). The body is parsed before the
  status is looked at. The text of an error message is converted to a string when it
  is assigned to \<^verbatim>\<open>textContent\<close>, the first assignment of \<^verbatim>\<open>showMessage\<close>; the
  model converts it just before the call. The call \<^verbatim>\<open>fetchActivities()\<close> of line 97
  is not awaited: it issues its request, and the handler goes on.
\<close>

definition submit_response :: "fetch_outcome \<Rightarrow> state \<Rightarrow> state" where
  "submit_response outcome st =
     (case outcome of
        Rejected \<Rightarrow> submit_catch FetchFailed st
      | Resolved r \<Rightarrow>
          (case body r of
             None \<Rightarrow> submit_catch JsonSyntaxError st
           | Some result \<Rightarrow>
               if ok r
               then submit_finish
                      (fetchActivities_request
                         (form_reset (showMessage ''Successfully signed up!'' ''success'' st)))
               else
                 (case and_then (get_prop ''detail'' result)
                         (\<lambda>d. to_string (if truthy d then d else JStr ''An error occurred'')) of
                    Inl e \<Rightarrow> submit_catch e st
                  | Inr text \<Rightarrow> submit_finish (showMessage text ''error'' st))))"

definition submit :: "fetch_outcome \<Rightarrow> state \<Rightarrow> state" where
  "submit outcome st =
     (case submit_begin st of
        (st1, False) \<Rightarrow> st1
      | (st1, True) \<Rightarrow> submit_response outcome st1)"

section \<open>Activity records and the directory\<close>

text \<open>
  An activity as \<^verbatim>\<open>GET /activities\<close> delivers it, and the JSON value the script
  receives for it and for a snapshot of the directory, the activities in the order of
  their enumeration.
\<close>

record activity_rec =
  description :: string
  schedule :: string
  max_participants :: nat
  participants :: "string list"

definition activity_json :: "activity_rec \<Rightarrow> jsval" where
  "activity_json a =
     JObj [(''description'', JStr (description a)),
           (''schedule'', JStr (schedule a)),
           (''max_participants'', JNum (int (max_participants a))),
           (''participants'', JArr (map JStr (participants a)))]"

definition snapshot_json :: "(string \<times> activity_rec) list \<Rightarrow> jsval" where
  "snapshot_json acts = JObj (map (\<lambda>(name, a). (name, activity_json a)) acts)"

datatype reply = Confirmation | NotFound | Conflict

definition status_code :: "reply \<Rightarrow> nat" where
  "status_code r = (case r of Confirmation \<Rightarrow> 200 | NotFound \<Rightarrow> 404 | Conflict \<Rightarrow> 400)"

text \<open>
  Modelled from the spec: the sign-up operation of the Activity Directory. The server
  (\<^verbatim>\<open>src/app.py\<close>) is not among the source files, so the operation follows section
  4.1 and section 6 of the specification: an unknown activity name fails with NotFound
  (404); an email already in the activity's participant list fails with Conflict (400);
  otherwise the email is appended to the participant list and a confirmation message is
  returned (200). The directory is a mapping from activity names to activities.
\<close>

definition signup ::
  "(string \<rightharpoonup> activity_rec) \<Rightarrow> string \<Rightarrow> string \<Rightarrow> reply \<times> (string \<rightharpoonup> activity_rec)" where
  "signup dir name email =
     (case dir name of
        None \<Rightarrow> (NotFound, dir)
      | Some a \<Rightarrow>
          if email \<in> set (participants a) then (Conflict, dir)
          else (Confirmation, dir(name \<mapsto> a\<lparr>participants := participants a @ [email]\<rparr>)))"

section \<open>The card of an activity record\<close>

text \<open>
  What the script computes when the value it renders is an activity record: the markup
  of the participants and the card. Lemma \<open>activityCard_activity_json\<close> below proves
  that \<open>activityCard\<close> yields exactly this card on \<open>activity_json a\<close>. The two numbers
  of the card are those of the script when they are safe integers; the claims bound
  them where they read them.
\<close>

definition participants_markup :: "string list \<Rightarrow> string" where
  \<open>participants_markup ps =
     (if ps = [] then ''<p class="no-participants">No participants yet</p>''
      else ''<ul class="participants-list">'' @ concat (map list_item ps) @ ''</ul>'')\<close>

definition activity_card :: "string \<Rightarrow> activity_rec \<Rightarrow> card" where
  "activity_card name a =
     \<lparr>className = ''activity-card'',
      innerHTML =
        card_template name (description a) (schedule a)
          (digits (length (participants a))) (digits (max_participants a))
          (participants_markup (participants a))\<rparr>"

definition get_activities :: request where
  "get_activities = \<lparr>http_method = ''GET'', url = ''/activities''\<rparr>"

section \<open>Decimal numerals\<close>

text \<open>
  What it is for a string to be the decimal numeral of a natural number, said without
  the function \<open>digits\<close>: the string is not empty, consists of decimal digits, begins
  with zero only if it is the numeral of zero, and has the number as its value read
  from the left. Lemma \<open>digits_is_decimal\<close> below proves that \<open>digits\<close> prints the
  numeral.
\<close>

definition digit_value :: "char \<Rightarrow> nat" where
  "digit_value c = of_char c - 48"

definition decimal_of :: "string \<Rightarrow> nat" where
  "decimal_of s = foldl (\<lambda>v c. 10 * v + digit_value c) 0 s"

definition is_decimal :: "string \<Rightarrow> nat \<Rightarrow> bool" where
  "is_decimal s n =
     (s \<noteq> [] \<and> list_all (\<lambda>c. c \<in> set ''0123456789'') s \<and>
      (hd s = CHR ''0'' \<longrightarrow> s = ''0'') \<and> decimal_of s = n)"

section \<open>Concrete inputs\<close>

text \<open>
  A page before the first load, whose markup gives the select control no option and
  the email input no value, with a hidden message; and the data of the examples of the
  specification.
\<close>

definition page0 :: state where
  "page0 =
     \<lparr>activities = JObj [],
      activitiesList = [],
      activitySelect = [],
      email_input = '''',
      email_defaultValue = '''',
      messageDiv = \<lparr>textContent = '''', classList = [''hidden'']\<rparr>,
      timers = [],
      now = 0,
      console = [],
      requests = []\<rparr>"

definition chess_empty :: activity_rec where
  "chess_empty =
     \<lparr>description = ''Learn strategies'', schedule = ''Fridays'',
      max_participants = 12, participants = []\<rparr>"

definition chess_full :: activity_rec where
  "chess_full =
     \<lparr>description = ''Learn strategies'', schedule = ''Fridays'',
      max_participants = 2, participants = [''ada@mergington.edu'', ''bob@mergington.edu'']\<rparr>"

text \<open>An activity at its capacity of twelve.\<close>

definition chess_twelve :: activity_rec where
  "chess_twelve =
     \<lparr>description = ''Learn strategies'', schedule = ''Fridays'',
      max_participants = 12,
      participants =
        [''s01@mergington.edu'', ''s02@mergington.edu'', ''s03@mergington.edu'',
         ''s04@mergington.edu'', ''s05@mergington.edu'', ''s06@mergington.edu'',
         ''s07@mergington.edu'', ''s08@mergington.edu'', ''s09@mergington.edu'',
         ''s10@mergington.edu'', ''s11@mergington.edu'', ''s12@mergington.edu'']\<rparr>"

text \<open>
  An instance of the parameter \<open>pos\<close> for the concrete inputs: a string of decimal
  digits that are not all zero converts to a number greater than zero.
\<close>

definition decimal_pos :: "string \<Rightarrow> bool" where
  "decimal_pos s =
     (s \<noteq> [] \<and> (\<forall>c \<in> set s. c \<in> set ''0123456789'') \<and> (\<exists>c \<in> set s. c \<noteq> CHR ''0''))"

text \<open>
  The page after its first load has been answered with the directory of the one
  activity: the select control holds the option of the activity, which the browser has
  selected. Then the user has typed an email.
\<close>

definition loaded_page :: state where
  "loaded_page =
     fetchActivities decimal_pos
       (Resolved \<lparr>status = 200, body = Some (snapshot_json [(''Chess Club'', chess_empty)])\<rparr>)
       page0"

definition filled_form :: form where
  "filled_form = \<lparr>email_value = ''ada@mergington.edu'', activity_value = ''Chess Club''\<rparr>"

definition filled_page :: state where
  "filled_page = loaded_page\<lparr>email_input := ''ada@mergington.edu''\<rparr>"

text \<open>An email that ends in a surrogate without its partner (the code unit D800).\<close>

definition broken_email :: string where
  "broken_email = ''ada'' @ [CHR 0xED, CHR 0xA0, CHR 0x80]"

section \<open>Basic facts\<close>

declare digits.simps [simp del]

lemma and_then_Inr [simp]: "and_then (Inr x) f = f x"
  by (simp add: and_then_def)

lemma and_then_Inl [simp]: "and_then (Inl e) f = Inl e"
  by (simp add: and_then_def)

lemma number_to_string_int [simp]: "number_to_string (int n) = digits n"
  by (simp add: number_to_string_def)

subsection \<open>The digits of a number are its decimal numeral\<close>

lemma digit_char:
  assumes "k < 10"
  shows "digit_value (''0123456789'' ! k) = k"
    and "''0123456789'' ! k \<in> set ''0123456789''"
    and "''0123456789'' ! k = CHR ''0'' \<longleftrightarrow> k = 0"
proof -
  from assms have "k = 0 \<or> k = 1 \<or> k = 2 \<or> k = 3 \<or> k = 4 \<or> k = 5 \<or> k = 6 \<or> k = 7 \<or> k = 8 \<or> k = 9"
    by arith
  then show "digit_value (''0123456789'' ! k) = k"
    by (elim disjE) (simp_all add: digit_value_def)
  from \<open>k = 0 \<or> _\<close> show "''0123456789'' ! k \<in> set ''0123456789''"
    by (elim disjE) simp_all
  from \<open>k = 0 \<or> _\<close> show "''0123456789'' ! k = CHR ''0'' \<longleftrightarrow> k = 0"
    by (elim disjE) simp_all
qed

lemma decimal_of_snoc: "decimal_of (s @ [c]) = 10 * decimal_of s + digit_value c"
  by (simp add: decimal_of_def)

lemma digits_is_decimal: "is_decimal (digits n) n"
proof (induction n rule: digits.induct)
  case (1 n)
  show ?case
  proof (cases "n < 10")
    case True
    then have d: "digits n = [''0123456789'' ! n]"
      by (simp add: digits.simps)
    show ?thesis
      unfolding d is_decimal_def
      using digit_char [OF True] by (simp add: decimal_of_def)
  next
    case False
    then have d: "digits n = digits (n div 10) @ [''0123456789'' ! (n mod 10)]"
      by (subst digits.simps) simp
    have m: "n mod 10 < 10"
      by simp
    from False 1 have ih: "is_decimal (digits (n div 10)) (n div 10)"
      by simp
    from False have pos: "n div 10 \<noteq> 0"
      by simp
    from ih pos have nz: "hd (digits (n div 10)) \<noteq> CHR ''0''"
      by (auto simp add: is_decimal_def decimal_of_def digit_value_def)
    from ih have ne: "digits (n div 10) \<noteq> []"
      by (simp add: is_decimal_def)
    show ?thesis
      unfolding d is_decimal_def
      using ih ne nz digit_char [OF m]
      by (simp add: is_decimal_def decimal_of_snoc)
  qed
qed

subsection \<open>The options of the select control\<close>

lemma ovalue_select_first_enabled [simp]:
  "map ovalue (select_first_enabled opts) = map ovalue opts"
  by (induction opts) simp_all

lemma ovalue_keep_last_selected [simp]:
  "map ovalue (keep_last_selected opts) = map ovalue opts"
  by (induction opts) simp_all

lemma ovalue_selectedness_setting [simp]:
  "map ovalue (selectedness_setting opts) = map ovalue opts"
  by (simp add: selectedness_setting_def)

lemma ovalue_appendChild_option [simp]:
  "map ovalue (appendChild_option x opts) = map ovalue opts @ [ovalue x]"
  by (simp add: appendChild_option_def)

lemma ovalue_reset_select [simp]:
  "map ovalue (reset_select opts) = map ovalue opts"
  by (simp add: reset_select_def comp_def)

lemma ovalue_append_options:
  "map ovalue (foldl (\<lambda>opts (name, a). appendChild_option (new_option name) opts) opts0 acts)
     = map ovalue opts0 @ map fst acts"
  by (induction acts arbitrary: opts0) (auto simp add: new_option_def)

section \<open>Rendering activity records\<close>

lemma sequence_list_items:
  "sequence (map ((\<lambda>email. and_then (to_string email) (\<lambda>s. Inr (list_item s))) \<circ> JStr) ps)
     = Inr (map list_item ps)"
  by (induction ps) simp_all

lemma participantsList_activity_json:
  "participantsList pos (activity_json a) = Inr (participants_markup (participants a))"
  by (simp add: participantsList_def activity_json_def participants_markup_def sequence_list_items)

lemma activityCard_activity_json:
  "activityCard pos name (activity_json a) = Inr (activity_card name a)"
  unfolding activityCard_def
  by (simp add: participantsList_activity_json to_number_ok_def)
     (simp add: activity_json_def activity_card_def)

lemma forEach_entry_snapshot:
  "forEach_entry pos (map (\<lambda>(name, a). (name, activity_json a)) acts) st =
     (st\<lparr>activitiesList := activitiesList st @ map (\<lambda>(name, a). Element (activity_card name a)) acts,
         activitySelect :=
           foldl (\<lambda>opts (name, a). appendChild_option (new_option name) opts)
             (activitySelect st) acts\<rparr>,
      None)"
proof (induction acts arbitrary: st)
  case Nil
  show ?case by simp
next
  case (Cons p acts)
  obtain name a where p: "p = (name, a)" by (cases p)
  show ?case
    by (simp add: p activityCard_activity_json Cons.IH)
qed

lemma fetchActivities_response_snapshot:
  "fetchActivities_response pos (Resolved \<lparr>status = s, body = Some (snapshot_json acts)\<rparr>) st =
     st\<lparr>activities := snapshot_json acts,
        activitiesList := map (\<lambda>(name, a). Element (activity_card name a)) acts,
        activitySelect :=
          foldl (\<lambda>opts (name, a). appendChild_option (new_option name) opts)
            (activitySelect st) acts\<rparr>"
  by (simp add: fetchActivities_response_def snapshot_json_def forEach_entry_snapshot)

lemma fetchActivities_snapshot:
  "fetchActivities pos (Resolved \<lparr>status = s, body = Some (snapshot_json acts)\<rparr>) st =
     st\<lparr>requests := requests st @ [get_activities],
        activities := snapshot_json acts,
        activitiesList := map (\<lambda>(name, a). Element (activity_card name a)) acts,
        activitySelect :=
          foldl (\<lambda>opts (name, a). appendChild_option (new_option name) opts)
            (activitySelect st) acts\<rparr>"
  by (simp add: fetchActivities_def fetchActivities_response_snapshot fetchActivities_request_def
        get_activities_def)

text \<open>
  A load appends the names of the snapshot to the values of the options that the
  select control already has.
\<close>

lemma fetchActivities_snapshot_options:
  "map ovalue
     (activitySelect
        (fetchActivities pos (Resolved \<lparr>status = s, body = Some (snapshot_json acts)\<rparr>) st))
     = map ovalue (activitySelect st) @ map fst acts"
  by (simp add: fetchActivities_snapshot ovalue_append_options)

text \<open>
  The function that the script never calls does clear the select control: after it,
  the control holds the placeholder and one option per activity name.
\<close>

lemma populateActivitySelect_options:
  "activities st = snapshot_json acts \<Longrightarrow>
   map ovalue (activitySelect (fst (populateActivitySelect st))) = '''' # map fst acts
   \<and> snd (populateActivitySelect st) = None"
proof -
  have f: "map ovalue (foldl (\<lambda>opts name. appendChild_option (new_option name) opts) opts0 names)
             = map ovalue opts0 @ names" for opts0 names
    by (induction names arbitrary: opts0) (simp_all add: new_option_def)
  assume "activities st = snapshot_json acts"
  then show ?thesis
    by (simp add: populateActivitySelect_def snapshot_json_def f placeholder_option_def
          case_prod_unfold comp_def)
qed

subsection \<open>What a card contains\<close>

lemma card_template_name:
  "sublist (''<h4>'' @ name @ ''</h4>'') (card_template name d s l m p)"
  unfolding sublist_def card_template_def
  by (rule exI [of _ "nl @ ''          ''"]) simp

lemma card_template_description:
  "sublist (''<p><strong>Description:</strong> '' @ d @ ''</p>'') (card_template name d s l m p)"
  unfolding sublist_def card_template_def
  by (rule exI [of _ "nl @ ''          <h4>'' @ name @ ''</h4>'' @ nl @ ''          ''"]) simp

lemma card_template_schedule:
  "sublist (''<p><strong>Schedule:</strong> '' @ s @ ''</p>'') (card_template name d s l m p)"
  unfolding sublist_def card_template_def
  by (rule exI [of _ "nl @ ''          <h4>'' @ name @ ''</h4>'' @
        nl @ ''          <p><strong>Description:</strong> '' @ d @ ''</p>'' @ nl @ ''          ''"]) simp

lemma card_template_capacity:
  "sublist (''<p><strong>Capacity:</strong> '' @ l @ ''/'' @ m @ ''</p>'') (card_template name d s l m p)"
  unfolding sublist_def card_template_def
  by (rule exI [of _ "nl @ ''          <h4>'' @ name @ ''</h4>'' @
        nl @ ''          <p><strong>Description:</strong> '' @ d @ ''</p>'' @
        nl @ ''          <p><strong>Schedule:</strong> '' @ s @ ''</p>'' @ nl @ ''          ''"]) simp

lemma card_template_participants:
  "sublist p (card_template name d s l m p)"
  unfolding sublist_def card_template_def
  by (rule exI [of _ "nl @ ''          <h4>'' @ name @ ''</h4>'' @
        nl @ ''          <p><strong>Description:</strong> '' @ d @ ''</p>'' @
        nl @ ''          <p><strong>Schedule:</strong> '' @ s @ ''</p>'' @
        nl @ ''          <p><strong>Capacity:</strong> '' @ l @ ''/'' @ m @ ''</p>'' @
        nl @ ''          <div class=\"participants-section\">'' @
        nl @ ''            <p><strong>Current Participants:</strong></p>'' @
        nl @ ''            ''"]) simp

lemma activity_card_contains:
  \<open>className (activity_card name a) = ''activity-card'' \<and>
   sublist (''<h4>'' @ name @ ''</h4>'') (innerHTML (activity_card name a)) \<and>
   sublist (''<p><strong>Description:</strong> '' @ description a @ ''</p>'')
     (innerHTML (activity_card name a)) \<and>
   sublist (''<p><strong>Schedule:</strong> '' @ schedule a @ ''</p>'')
     (innerHTML (activity_card name a)) \<and>
   sublist (''<p><strong>Capacity:</strong> '' @ digits (length (participants a)) @ ''/'' @
            digits (max_participants a) @ ''</p>'')
     (innerHTML (activity_card name a)) \<and>
   sublist (if participants a = [] then ''<p class="no-participants">No participants yet</p>''
            else ''<ul class="participants-list">'' @
                 concat (map (\<lambda>email. ''<li>'' @ email @ ''</li>'') (participants a)) @ ''</ul>'')
     (innerHTML (activity_card name a))\<close>
proof -
  have li: "list_item = (\<lambda>email. ''<li>'' @ email @ ''</li>'')"
    by (rule ext) (simp add: list_item_def)
  have pm: "participants_markup (participants a) =
     (if participants a = [] then ''<p class=\"no-participants\">No participants yet</p>''
      else ''<ul class=\"participants-list\">'' @
           concat (map (\<lambda>email. ''<li>'' @ email @ ''</li>'') (participants a)) @ ''</ul>'')"
    by (simp only: participants_markup_def li)
  have "sublist (participants_markup (participants a)) (innerHTML (activity_card name a))"
    by (simp add: activity_card_def card_template_participants)
  then have p: "sublist (if participants a = [] then ''<p class=\"no-participants\">No participants yet</p>''
            else ''<ul class=\"participants-list\">'' @
                 concat (map (\<lambda>email. ''<li>'' @ email @ ''</li>'') (participants a)) @ ''</ul>'')
     (innerHTML (activity_card name a))"
    by (simp only: pm)
  have c: "className (activity_card name a) = ''activity-card''"
    by (simp add: activity_card_def)
  have i: "innerHTML (activity_card name a) =
        card_template name (description a) (schedule a)
          (digits (length (participants a))) (digits (max_participants a))
          (participants_markup (participants a))"
    by (simp add: activity_card_def)
  show ?thesis
    apply (intro conjI)
         apply (rule c)
        apply (simp only: i card_template_name)
       apply (simp only: i card_template_description)
      apply (simp only: i card_template_schedule)
     apply (simp only: i card_template_capacity)
    apply (rule p)
    done
qed

subsection \<open>A number has one decimal numeral\<close>

lemma foldl_decimal_ge: "v \<le> foldl (\<lambda>v c. 10 * v + digit_value c) v s"
proof (induction s arbitrary: v)
  case Nil
  show ?case by simp
next
  case (Cons c s)
  have "v \<le> 10 * v + digit_value c"
    by simp
  also have "\<dots> \<le> foldl (\<lambda>v c. 10 * v + digit_value c) (10 * v + digit_value c) s"
    by (rule Cons.IH)
  finally show ?case
    by simp
qed

lemma decimal_of_Cons_ge: "digit_value c \<le> decimal_of (c # s)"
  using foldl_decimal_ge [of "digit_value c" s] by (simp add: decimal_of_def)

lemma digit_char_ex:
  assumes "c \<in> set ''0123456789''"
  shows "\<exists>k<10. c = ''0123456789'' ! k"
proof -
  from assms obtain k where k: "k < length ''0123456789''" and c: "''0123456789'' ! k = c"
    unfolding in_set_conv_nth by blast
  have "length ''0123456789'' = 10"
    by simp
  with k have "k < 10"
    by (simp only:)
  with c show ?thesis
    by blast
qed

lemma is_decimal_digits:
  "is_decimal s n \<Longrightarrow> s = digits n"
proof (induction n arbitrary: s rule: digits.induct)
  case (1 n)
  from "1.prems" have ne: "s \<noteq> []"
    and dig: "list_all (\<lambda>c. c \<in> set ''0123456789'') s"
    and lead: "hd s = CHR ''0'' \<longrightarrow> s = ''0''"
    and val: "decimal_of s = n"
    by (simp_all add: is_decimal_def)
  from ne obtain s' c where s: "s = s' @ [c]"
    by (cases s rule: rev_cases) auto
  from dig s have c: "c \<in> set ''0123456789''" and dig': "list_all (\<lambda>c. c \<in> set ''0123456789'') s'"
    by simp_all
  from digit_char_ex [OF c] obtain k where k: "k < 10" "c = ''0123456789'' ! k"
    by blast
  from val have n: "n = 10 * decimal_of s' + k"
    by (simp add: s decimal_of_snoc k digit_char(1))
  from n k have k': "k = n mod 10" and q: "decimal_of s' = n div 10"
    by simp_all
  have lead': "s' \<noteq> [] \<Longrightarrow> hd s' \<noteq> CHR ''0''"
    using lead s by (cases s') auto
  show ?case
  proof (cases "n < 10")
    case True
    have "s' = []"
    proof (rule ccontr)
      assume a: "s' \<noteq> []"
      then obtain x xs where x: "s' = x # xs"
        by (cases s') auto
      from dig' x have "x \<in> set ''0123456789''"
        by simp
      from digit_char_ex [OF this] obtain j where j: "j < 10" "x = ''0123456789'' ! j"
        by blast
      from lead' [OF a] x j have "j \<noteq> 0"
        using digit_char(3) [OF j(1)] by simp
      then have "1 \<le> digit_value x"
        using digit_char(1) [OF j(1)] j by simp
      also have "\<dots> \<le> decimal_of s'"
        unfolding x by (rule decimal_of_Cons_ge)
      finally show False
        using q True by simp
    qed
    with s n k True show ?thesis
      by (simp add: digits.simps decimal_of_def)
  next
    case False
    have a: "s' \<noteq> []"
    proof
      assume "s' = []"
      with n k False show False
        by (simp add: decimal_of_def)
    qed
    have "is_decimal s' (n div 10)"
      using a dig' lead' [OF a] q by (simp add: is_decimal_def)
    with "1.IH" False have "s' = digits (n div 10)"
      by simp
    with s k k' False show ?thesis
      by (subst digits.simps) simp
  qed
qed

lemma digits_12: "digits 12 = ''12''"
  by (simp add: digits.simps)

lemma activity_card_fraction:
  "\<exists>l m. is_decimal l (length (participants a)) \<and> is_decimal m (max_participants a) \<and>
         sublist (''<p><strong>Capacity:</strong> '' @ l @ ''/'' @ m @ ''</p>'')
           (innerHTML (activity_card name a))"
proof (intro exI conjI)
  show "is_decimal (digits (length (participants a))) (length (participants a))"
    by (rule digits_is_decimal)
  show "is_decimal (digits (max_participants a)) (max_participants a)"
    by (rule digits_is_decimal)
  show "sublist (''<p><strong>Capacity:</strong> '' @ digits (length (participants a)) @ ''/'' @
                 digits (max_participants a) @ ''</p>'')
          (innerHTML (activity_card name a))"
    using activity_card_contains [of name a] by (elim conjE)
qed

subsection \<open>When the rendering throws\<close>

lemma activityCard_no_participants:
  "get_prop ''participants'' details \<in> {Inr JUndefined, Inr JNull, Inl TypeError} \<Longrightarrow>
   activityCard pos name details = Inl TypeError"
  unfolding activityCard_def
  by (cases details) auto

lemma forEach_entry_console:
  "console (fst (forEach_entry pos entries st)) = console st"
  by (induction entries arbitrary: st) (auto split: sum.split)

lemma forEach_entry_throws:
  "snd (forEach_entry pos entries st) = None \<longleftrightarrow>
     \<not> list_ex (\<lambda>(name, details). isl (activityCard pos name details)) entries"
proof (induction entries arbitrary: st)
  case Nil
  show ?case by simp
next
  case (Cons p entries)
  obtain name details where p: "p = (name, details)"
    by (cases p)
  show ?case
  proof (cases "activityCard pos name details")
    case (Inl e)
    then show ?thesis
      by (simp add: p)
  next
    case (Inr c)
    then show ?thesis
      by (simp add: p Cons.IH)
  qed
qed

text \<open>
  The load in three cases: the failure branch after a rejected fetch or body, the
  failure branch after an exception of the rendering, and the rendering that ends.
\<close>

lemma fetchActivities_cases:
  "fetchActivities pos outcome st =
     (case outcome of
        Rejected \<Rightarrow> fetchActivities_catch FetchFailed (fetchActivities_request st)
      | Resolved r \<Rightarrow>
          (case body r of
             None \<Rightarrow> fetchActivities_catch JsonSyntaxError (fetchActivities_request st)
           | Some v \<Rightarrow>
               (case object_entries v of
                  Inl e \<Rightarrow>
                    fetchActivities_catch e
                      ((fetchActivities_request st)\<lparr>activities := v, activitiesList := []\<rparr>)
                | Inr entries \<Rightarrow>
                    (case snd (forEach_entry pos entries
                                 ((fetchActivities_request st)
                                    \<lparr>activities := v, activitiesList := []\<rparr>)) of
                       None \<Rightarrow>
                         fst (forEach_entry pos entries
                                ((fetchActivities_request st)
                                   \<lparr>activities := v, activitiesList := []\<rparr>))
                     | Some e \<Rightarrow>
                         fetchActivities_catch e
                           (fst (forEach_entry pos entries
                                   ((fetchActivities_request st)
                                      \<lparr>activities := v, activitiesList := []\<rparr>)))))))"
  by (simp add: fetchActivities_def fetchActivities_response_def Let_def
        split: fetch_outcome.split option.split sum.split prod.split)

lemma console_fetchActivities_catch [simp]:
  "console (fetchActivities_catch e st) = console st @ [(''Error fetching activities:'', e)]"
  "activitiesList (fetchActivities_catch e st)
     = [Markup ''<p>Failed to load activities. Please try again later.</p>'']"
  by (simp_all add: fetchActivities_catch_def)

lemma console_fetchActivities_request [simp]:
  "console (fetchActivities_request st) = console st"
  by (simp add: fetchActivities_request_def)

lemma fetchActivities_failed_iff:
  "console (fetchActivities pos outcome st) \<noteq> console st \<longleftrightarrow>
     outcome = Rejected \<or>
     (\<exists>r. outcome = Resolved r \<and>
          (body r = None \<or> (\<exists>v. body r = Some v \<and> rendering_throws pos v)))"
proof (cases outcome)
  case Rejected
  then show ?thesis
    by (simp add: fetchActivities_cases)
next
  case (Resolved r)
  show ?thesis
  proof (cases "body r")
    case None
    with Resolved show ?thesis
      by (simp add: fetchActivities_cases)
  next
    case (Some v)
    show ?thesis
    proof (cases "object_entries v")
      case (Inl e)
      with Resolved Some show ?thesis
        by (simp add: fetchActivities_cases rendering_throws_def)
    next
      case (Inr entries)
      let ?st1 = "(fetchActivities_request st)\<lparr>activities := v, activitiesList := []\<rparr>"
      have c: "console (fst (forEach_entry pos entries ?st1)) = console st"
        by (simp add: forEach_entry_console)
      have t: "snd (forEach_entry pos entries ?st1) = None \<longleftrightarrow> \<not> rendering_throws pos v"
        by (simp add: forEach_entry_throws rendering_throws_def Inr)
      show ?thesis
      proof (cases "snd (forEach_entry pos entries ?st1)")
        case None
        with Resolved Some Inr c t show ?thesis
          by (simp add: fetchActivities_cases)
      next
        case (Some e)
        with Resolved \<open>body r = Some v\<close> Inr c t show ?thesis
          by (simp add: fetchActivities_cases)
      qed
    qed
  qed
qed

lemma fetchActivities_list_on_failure:
  assumes "console (fetchActivities pos outcome st) \<noteq> console st"
  shows "activitiesList (fetchActivities pos outcome st)
           = [Markup ''<p>Failed to load activities. Please try again later.</p>'']
         \<and> (\<exists>e. console (fetchActivities pos outcome st)
                  = console st @ [(''Error fetching activities:'', e)])"
proof (cases outcome)
  case Rejected
  then show ?thesis
    by (simp add: fetchActivities_cases)
next
  case (Resolved r)
  show ?thesis
  proof (cases "body r")
    case None
    with Resolved show ?thesis
      by (simp add: fetchActivities_cases)
  next
    case (Some v)
    show ?thesis
    proof (cases "object_entries v")
      case (Inl e)
      with Resolved Some show ?thesis
        by (simp add: fetchActivities_cases)
    next
      case (Inr entries)
      let ?st1 = "(fetchActivities_request st)\<lparr>activities := v, activitiesList := []\<rparr>"
      have c: "console (fst (forEach_entry pos entries ?st1)) = console st"
        by (simp add: forEach_entry_console)
      show ?thesis
      proof (cases "snd (forEach_entry pos entries ?st1)")
        case None
        with Resolved Some Inr c assms show ?thesis
          by (simp add: fetchActivities_cases)
      next
        case (Some e)
        with Resolved \<open>body r = Some v\<close> Inr c show ?thesis
          by (simp add: fetchActivities_cases)
      qed
    qed
  qed
qed

lemma snapshot_never_throws: "\<not> rendering_throws pos (snapshot_json acts)"
  by (simp add: rendering_throws_def snapshot_json_def list_ex_iff activityCard_activity_json
        split: prod.split)

lemma no_participants_throws:
  "object_entries v = Inr ((name, details) # rest) \<Longrightarrow>
   get_prop ''participants'' details \<in> {Inr JUndefined, Inr JNull, Inl TypeError} \<Longrightarrow>
   rendering_throws pos v"
  by (simp add: rendering_throws_def activityCard_no_participants)

section \<open>The claims about loading and rendering\<close>

text \<open>
  Claim C1 says that after every completed load the select control holds exactly one
  option per activity name of the fetched snapshot, the earlier options being cleared,
  also on the load that follows a successful signup. \<open>fetchActivities\<close> clears the
  list of cards (line 16) and appends to the select control without clearing it
  (line 49). On a page that has loaded the directory once, the load after a signup
  leaves two options for the one activity.
\<close>

theorem fetchActivities_twice_duplicates_options:
  "map ovalue
     (activitySelect
        (fetchActivities pos
           (Resolved \<lparr>status = 200, body = Some (snapshot_json [(''Chess Club'', chess_full)])\<rparr>)
           (fetchActivities pos
              (Resolved \<lparr>status = 200, body = Some (snapshot_json [(''Chess Club'', chess_empty)])\<rparr>)
              page0)))
   = [''Chess Club'', ''Chess Club'']"
  by (simp add: fetchActivities_snapshot_options page0_def)

text \<open>
  Claim C8: when the fetch rejects or the body of the response fails to parse as JSON,
  the load replaces the content of the activities list by the static failure message
  and logs the error, and it does not retry: the one request of the load is the only
  one issued, no timer is set, and nothing else on the page changes.
\<close>

theorem fetchActivities_failure:
  "fetchActivities pos Rejected st =
     st\<lparr>requests := requests st @ [\<lparr>http_method = ''GET'', url = ''/activities''\<rparr>],
        activitiesList := [Markup ''<p>Failed to load activities. Please try again later.</p>''],
        console := console st @ [(''Error fetching activities:'', FetchFailed)]\<rparr>
   \<and> fetchActivities pos (Resolved \<lparr>status = s, body = None\<rparr>) st =
     st\<lparr>requests := requests st @ [\<lparr>http_method = ''GET'', url = ''/activities''\<rparr>],
        activitiesList := [Markup ''<p>Failed to load activities. Please try again later.</p>''],
        console := console st @ [(''Error fetching activities:'', JsonSyntaxError)]\<rparr>"
  by (simp add: fetchActivities_def fetchActivities_response_def fetchActivities_request_def
        fetchActivities_catch_def)

text \<open>
  Claim C10: the card-rendering step puts the activity name, the description, the
  schedule and each participant email into the markup of the card as they are, with no
  escaping. For every activity record and every name, the \<^verbatim>\<open>innerHTML\<close> assigned to
  the card is the template with these strings substituted character for character, so
  markup in the data is markup in the card. (The two numbers of the capacity line are
  left open here: the statement is about the strings.)
\<close>

theorem activityCard_interpolates_verbatim:
  \<open>\<exists>len_text max_text.
     activityCard pos name (activity_json a) =
       Inr \<lparr>className = ''activity-card'',
            innerHTML =
              nl @ ''          <h4>'' @ name @ ''</h4>'' @
              nl @ ''          <p><strong>Description:</strong> '' @ description a @ ''</p>'' @
              nl @ ''          <p><strong>Schedule:</strong> '' @ schedule a @ ''</p>'' @
              nl @ ''          <p><strong>Capacity:</strong> '' @ len_text @ ''/'' @ max_text @
                   ''</p>'' @
              nl @ ''          <div class="participants-section">'' @
              nl @ ''            <p><strong>Current Participants:</strong></p>'' @
              nl @ ''            '' @
                   (if participants a = [] then ''<p class="no-participants">No participants yet</p>''
                    else ''<ul class="participants-list">'' @
                         concat (map (\<lambda>email. ''<li>'' @ email @ ''</li>'') (participants a)) @
                         ''</ul>'') @
              nl @ ''          </div>'' @
              nl @ ''        ''\<rparr>\<close>
proof -
  have li: "list_item = (\<lambda>email. ''<li>'' @ email @ ''</li>'')"
    by (rule ext) (simp add: list_item_def)
  show ?thesis
    by (rule exI [of _ "digits (length (participants a))"],
        rule exI [of _ "digits (max_participants a)"])
       (simp add: activityCard_activity_json activity_card_def card_template_def
          participants_markup_def li)
qed

text \<open>
  Claim C7: for every activity of the fetched snapshot, also one whose participant list
  is as long as \<^verbatim>\<open>max_participants\<close>, the load renders exactly one card: the list
  has as many children as the snapshot has activities, and the child at the position of
  an activity is a card that contains the name, the description, the schedule, the
  list of all participant emails (or the placeholder when there is none) and the
  capacity fraction: the decimal numeral of the length of the participant list, a
  slash, and the decimal numeral of \<^verbatim>\<open>max_participants\<close>, as in \<^verbatim>\<open>12/12\<close>. No
  case of the rendering depends on the capacity. The fraction is stated for numbers
  that are safe integers, which the runtime prints with all their digits.
\<close>

theorem fetchActivities_renders_every_activity:
  \<open>let children =
         activitiesList
           (fetchActivities pos (Resolved \<lparr>status = s, body = Some (snapshot_json acts)\<rparr>) st)
   in length children = length acts \<and>
      (\<forall>i < length acts.
         case acts ! i of (name, a) \<Rightarrow>
           \<exists>c. children ! i = Element c \<and>
               className c = ''activity-card'' \<and>
               sublist (''<h4>'' @ name @ ''</h4>'') (innerHTML c) \<and>
               sublist (''<p><strong>Description:</strong> '' @ description a @ ''</p>'')
                 (innerHTML c) \<and>
               sublist (''<p><strong>Schedule:</strong> '' @ schedule a @ ''</p>'') (innerHTML c) \<and>
               sublist (if participants a = []
                        then ''<p class="no-participants">No participants yet</p>''
                        else ''<ul class="participants-list">'' @
                             concat (map (\<lambda>email. ''<li>'' @ email @ ''</li>'') (participants a)) @
                             ''</ul>'')
                 (innerHTML c) \<and>
               (safe_integer (int (length (participants a))) \<and>
                safe_integer (int (max_participants a)) \<longrightarrow>
                  (\<exists>l m. is_decimal l (length (participants a)) \<and>
                         is_decimal m (max_participants a) \<and>
                         sublist (''<p><strong>Capacity:</strong> '' @ l @ ''/'' @ m @ ''</p>'')
                           (innerHTML c))))\<close>
proof -
  have children:
    "activitiesList
       (fetchActivities pos (Resolved \<lparr>status = s, body = Some (snapshot_json acts)\<rparr>) st)
     = map (\<lambda>(name, a). Element (activity_card name a)) acts"
    by (simp add: fetchActivities_snapshot)
  have card:
    "\<exists>c. Element (activity_card name a) = Element c \<and>
         className c = ''activity-card'' \<and>
         sublist (''<h4>'' @ name @ ''</h4>'') (innerHTML c) \<and>
         sublist (''<p><strong>Description:</strong> '' @ description a @ ''</p>'')
           (innerHTML c) \<and>
         sublist (''<p><strong>Schedule:</strong> '' @ schedule a @ ''</p>'') (innerHTML c) \<and>
         sublist (if participants a = []
                  then ''<p class=\"no-participants\">No participants yet</p>''
                  else ''<ul class=\"participants-list\">'' @
                       concat (map (\<lambda>email. ''<li>'' @ email @ ''</li>'') (participants a)) @
                       ''</ul>'')
           (innerHTML c) \<and>
         (safe_integer (int (length (participants a))) \<and>
          safe_integer (int (max_participants a)) \<longrightarrow>
            (\<exists>l m. is_decimal l (length (participants a)) \<and>
                   is_decimal m (max_participants a) \<and>
                   sublist (''<p><strong>Capacity:</strong> '' @ l @ ''/'' @ m @ ''</p>'')
                     (innerHTML c)))" for name a
  proof (rule exI [of _ "activity_card name a"], intro conjI impI)
    note c = activity_card_contains [of name a]
    show "Element (activity_card name a) = Element (activity_card name a)"
      by (rule refl)
    from c show "className (activity_card name a) = ''activity-card''"
      by (elim conjE)
    from c show "sublist (''<h4>'' @ name @ ''</h4>'') (innerHTML (activity_card name a))"
      by (elim conjE)
    from c show "sublist (''<p><strong>Description:</strong> '' @ description a @ ''</p>'')
           (innerHTML (activity_card name a))"
      by (elim conjE)
    from c show "sublist (''<p><strong>Schedule:</strong> '' @ schedule a @ ''</p>'')
           (innerHTML (activity_card name a))"
      by (elim conjE)
    from c show "sublist (if participants a = []
                  then ''<p class=\"no-participants\">No participants yet</p>''
                  else ''<ul class=\"participants-list\">'' @
                       concat (map (\<lambda>email. ''<li>'' @ email @ ''</li>'') (participants a)) @
                       ''</ul>'')
           (innerHTML (activity_card name a))"
      by (elim conjE)
    show "\<exists>l m. is_decimal l (length (participants a)) \<and>
                   is_decimal m (max_participants a) \<and>
                   sublist (''<p><strong>Capacity:</strong> '' @ l @ ''/'' @ m @ ''</p>'')
                     (innerHTML (activity_card name a))"
      by (rule activity_card_fraction)
  qed
  show ?thesis
    unfolding Let_def children
  proof (intro conjI allI impI)
    show "length (map (\<lambda>(name, a). Element (activity_card name a)) acts) = length acts"
      by simp
  next
    fix i
    assume i: "i < length acts"
    obtain name a where na: "acts ! i = (name, a)"
      by (cases "acts ! i")
    have nth: "map (\<lambda>(name, a). Element (activity_card name a)) acts ! i
                 = Element (activity_card name a)"
      using i na by simp
    show "case acts ! i of (name, a) \<Rightarrow>
           \<exists>c. map (\<lambda>(name, a). Element (activity_card name a)) acts ! i = Element c \<and>
               className c = ''activity-card'' \<and>
               sublist (''<h4>'' @ name @ ''</h4>'') (innerHTML c) \<and>
               sublist (''<p><strong>Description:</strong> '' @ description a @ ''</p>'')
                 (innerHTML c) \<and>
               sublist (''<p><strong>Schedule:</strong> '' @ schedule a @ ''</p>'') (innerHTML c) \<and>
               sublist (if participants a = []
                        then ''<p class=\"no-participants\">No participants yet</p>''
                        else ''<ul class=\"participants-list\">'' @
                             concat (map (\<lambda>email. ''<li>'' @ email @ ''</li>'') (participants a)) @
                             ''</ul>'')
                 (innerHTML c) \<and>
               (safe_integer (int (length (participants a))) \<and>
                safe_integer (int (max_participants a)) \<longrightarrow>
                  (\<exists>l m. is_decimal l (length (participants a)) \<and>
                         is_decimal m (max_participants a) \<and>
                         sublist (''<p><strong>Capacity:</strong> '' @ l @ ''/'' @ m @ ''</p>'')
                           (innerHTML c)))"
      unfolding na prod.case nth
      by (rule card)
  qed
qed

theorem fetchActivities_renders_every_activity_witness:
  \<open>(0::nat) < length [(''Chess Club'', chess_twelve)] \<and>
   safe_integer (int (length (participants chess_twelve))) \<and>
   safe_integer (int (max_participants chess_twelve)) \<and>
   (\<exists>c. activitiesList
          (fetchActivities decimal_pos
             (Resolved \<lparr>status = 200, body = Some (snapshot_json [(''Chess Club'', chess_twelve)])\<rparr>)
             page0) ! 0 = Element c \<and>
        sublist ''<h4>Chess Club</h4>'' (innerHTML c) \<and>
        sublist ''<p><strong>Description:</strong> Learn strategies</p>'' (innerHTML c) \<and>
        sublist ''<p><strong>Schedule:</strong> Fridays</p>'' (innerHTML c) \<and>
        sublist ''<p><strong>Capacity:</strong> 12/12</p>'' (innerHTML c) \<and>
        sublist ''<ul class="participants-list"><li>s01@mergington.edu</li><li>s02@mergington.edu</li><li>s03@mergington.edu</li><li>s04@mergington.edu</li><li>s05@mergington.edu</li><li>s06@mergington.edu</li><li>s07@mergington.edu</li><li>s08@mergington.edu</li><li>s09@mergington.edu</li><li>s10@mergington.edu</li><li>s11@mergington.edu</li><li>s12@mergington.edu</li></ul>''
          (innerHTML c))\<close>
proof -
  have len: "(0::nat) < length [(''Chess Club'', chess_twelve)]"
    by simp
  have safe: "safe_integer (int (length (participants chess_twelve))) \<and>
              safe_integer (int (max_participants chess_twelve))"
    by (simp add: safe_integer_def chess_twelve_def)
  have n: "length (participants chess_twelve) = 12" "max_participants chess_twelve = 12"
    by (simp_all add: chess_twelve_def)
  note inst = fetchActivities_renders_every_activity
            [of decimal_pos 200 "[(''Chess Club'', chess_twelve)]" page0,
             unfolded Let_def, THEN conjunct2, rule_format, OF len, simplified]
  from inst obtain c where
    c: "activitiesList
          (fetchActivities decimal_pos
             (Resolved \<lparr>status = 200, body = Some (snapshot_json [(''Chess Club'', chess_twelve)])\<rparr>)
             page0) ! 0 = Element c"
    and name: "sublist (''<h4>'' @ ''Chess Club'' @ ''</h4>'') (innerHTML c)"
    and desc: "sublist (''<p><strong>Description:</strong> '' @ description chess_twelve @ ''</p>'')
                 (innerHTML c)"
    and sched: "sublist (''<p><strong>Schedule:</strong> '' @ schedule chess_twelve @ ''</p>'')
                 (innerHTML c)"
    and ps: "sublist (if participants chess_twelve = []
                      then ''<p class=\"no-participants\">No participants yet</p>''
                      else ''<ul class=\"participants-list\">'' @
                           concat (map (\<lambda>email. ''<li>'' @ email @ ''</li>'')
                                     (participants chess_twelve)) @
                           ''</ul>'')
               (innerHTML c)"
    and frac: "safe_integer (int (length (participants chess_twelve))) \<and>
               safe_integer (int (max_participants chess_twelve)) \<longrightarrow>
                 (\<exists>l m. is_decimal l (length (participants chess_twelve)) \<and>
                        is_decimal m (max_participants chess_twelve) \<and>
                        sublist (''<p><strong>Capacity:</strong> '' @ l @ ''/'' @ m @ ''</p>'')
                          (innerHTML c))"
    by auto
  from frac safe obtain l m where
    l: "is_decimal l (length (participants chess_twelve))" and
    m: "is_decimal m (max_participants chess_twelve)" and
    f: "sublist (''<p><strong>Capacity:</strong> '' @ l @ ''/'' @ m @ ''</p>'') (innerHTML c)"
    by blast
  have l12: "l = ''12''"
    using is_decimal_digits [OF l [unfolded n]] by (simp only: digits_12)
  have m12: "m = ''12''"
    using is_decimal_digits [OF m [unfolded n]] by (simp only: digits_12)
  have 1: "sublist ''<h4>Chess Club</h4>'' (innerHTML c)"
    using name by simp
  have 2: "sublist ''<p><strong>Description:</strong> Learn strategies</p>'' (innerHTML c)"
    using desc by (simp add: chess_twelve_def)
  have 3: "sublist ''<p><strong>Schedule:</strong> Fridays</p>'' (innerHTML c)"
    using sched by (simp add: chess_twelve_def)
  have 4: "sublist ''<p><strong>Capacity:</strong> 12/12</p>'' (innerHTML c)"
    using f by (simp add: l12 m12)
  have 5: "sublist ''<ul class=\"participants-list\"><li>s01@mergington.edu</li><li>s02@mergington.edu</li><li>s03@mergington.edu</li><li>s04@mergington.edu</li><li>s05@mergington.edu</li><li>s06@mergington.edu</li><li>s07@mergington.edu</li><li>s08@mergington.edu</li><li>s09@mergington.edu</li><li>s10@mergington.edu</li><li>s11@mergington.edu</li><li>s12@mergington.edu</li></ul>'' (innerHTML c)"
    using ps by (simp add: chess_twelve_def)
  from c 1 2 3 4 5 have "\<exists>c. activitiesList
          (fetchActivities decimal_pos
             (Resolved \<lparr>status = 200, body = Some (snapshot_json [(''Chess Club'', chess_twelve)])\<rparr>)
             page0) ! 0 = Element c \<and>
        sublist ''<h4>Chess Club</h4>'' (innerHTML c) \<and>
        sublist ''<p><strong>Description:</strong> Learn strategies</p>'' (innerHTML c) \<and>
        sublist ''<p><strong>Schedule:</strong> Fridays</p>'' (innerHTML c) \<and>
        sublist ''<p><strong>Capacity:</strong> 12/12</p>'' (innerHTML c) \<and>
        sublist ''<ul class=\"participants-list\"><li>s01@mergington.edu</li><li>s02@mergington.edu</li><li>s03@mergington.edu</li><li>s04@mergington.edu</li><li>s05@mergington.edu</li><li>s06@mergington.edu</li><li>s07@mergington.edu</li><li>s08@mergington.edu</li><li>s09@mergington.edu</li><li>s10@mergington.edu</li><li>s11@mergington.edu</li><li>s12@mergington.edu</li></ul>''
          (innerHTML c)"
    by blast
  with len safe show ?thesis
    by blast
qed

text \<open>
  Claim C9 says that the load never looks at the status of the response, renders every
  body that parses as JSON as if it were activity data, and reaches its failure branch
  only when the fetch rejects or the body fails to parse. The last part fails: the
  rendering of a parsed body can throw, and the \<^verbatim>\<open>catch\<close> clause of the load covers
  the rendering as well. The body of a 404 response of the server, an object with the
  one key \<^verbatim>\<open>detail\<close>, parses, and the load ends in the failure branch with a
  \<^verbatim>\<open>TypeError\<close>: the entry is a string, its \<^verbatim>\<open>participants\<close> is undefined, and
  line 23 reads the length of that.
\<close>

theorem fetchActivities_error_body_counterexample:
  "activitiesList
     (fetchActivities decimal_pos
        (Resolved \<lparr>status = 404, body = Some (JObj [(''detail'', JStr ''Not Found'')])\<rparr>) page0)
     = [Markup ''<p>Failed to load activities. Please try again later.</p>'']
   \<and> console
     (fetchActivities decimal_pos
        (Resolved \<lparr>status = 404, body = Some (JObj [(''detail'', JStr ''Not Found'')])\<rparr>) page0)
     = [(''Error fetching activities:'', TypeError)]"
  by (simp add: fetchActivities_def fetchActivities_response_def fetchActivities_request_def
        fetchActivities_catch_def activityCard_def page0_def)

text \<open>
  Claim C9 as amended: the load never looks at the status (two responses with the same
  body are handled alike, whatever their status), so a body that is a mapping of
  activity records is rendered as activity data under every status, with nothing
  logged. The failure branch is reached only when the fetch rejects, when the body
  fails to parse as JSON, or when the rendering of the parsed body throws, and in each
  of these cases it is reached: the list then holds the failure message and the error
  is logged. The rendering throws, for one, on every body whose first entry is null
  or has \<^verbatim>\<open>participants\<close> undefined or null.
\<close>

theorem fetchActivities_failure_branch:
  "fetchActivities pos (Resolved \<lparr>status = s, body = b\<rparr>) st =
     fetchActivities pos (Resolved \<lparr>status = s', body = b\<rparr>) st
   \<and> (console (fetchActivities pos outcome st) \<noteq> console st \<longleftrightarrow>
        outcome = Rejected \<or>
        (\<exists>r. outcome = Resolved r \<and>
             (body r = None \<or> (\<exists>v. body r = Some v \<and> rendering_throws pos v))))
   \<and> (console (fetchActivities pos outcome st) \<noteq> console st \<longrightarrow>
        activitiesList (fetchActivities pos outcome st)
          = [Markup ''<p>Failed to load activities. Please try again later.</p>'']
        \<and> (\<exists>e. console (fetchActivities pos outcome st)
                 = console st @ [(''Error fetching activities:'', e)]))
   \<and> (\<not> rendering_throws pos (snapshot_json acts)
      \<and> console
          (fetchActivities pos (Resolved \<lparr>status = s, body = Some (snapshot_json acts)\<rparr>) st)
        = console st
      \<and> length (activitiesList
          (fetchActivities pos (Resolved \<lparr>status = s, body = Some (snapshot_json acts)\<rparr>) st))
        = length acts)
   \<and> (object_entries v = Inr ((name, details) # rest) \<and>
      get_prop ''participants'' details \<in> {Inr JUndefined, Inr JNull, Inl TypeError} \<longrightarrow>
        rendering_throws pos v)"
proof -
  have 1: "fetchActivities pos (Resolved \<lparr>status = s, body = b\<rparr>) st =
           fetchActivities pos (Resolved \<lparr>status = s', body = b\<rparr>) st"
    by (simp add: fetchActivities_def fetchActivities_response_def)
  note 2 = fetchActivities_failed_iff [of pos outcome st]
  have 3: "console (fetchActivities pos outcome st) \<noteq> console st \<longrightarrow>
        activitiesList (fetchActivities pos outcome st)
          = [Markup ''<p>Failed to load activities. Please try again later.</p>'']
        \<and> (\<exists>e. console (fetchActivities pos outcome st)
                 = console st @ [(''Error fetching activities:'', e)])"
    using fetchActivities_list_on_failure [of pos outcome st] by blast
  have 4: "\<not> rendering_throws pos (snapshot_json acts)
      \<and> console
          (fetchActivities pos (Resolved \<lparr>status = s, body = Some (snapshot_json acts)\<rparr>) st)
        = console st
      \<and> length (activitiesList
          (fetchActivities pos (Resolved \<lparr>status = s, body = Some (snapshot_json acts)\<rparr>) st))
        = length acts"
    by (simp add: snapshot_never_throws fetchActivities_snapshot)
  have 5: "object_entries v = Inr ((name, details) # rest) \<and>
      get_prop ''participants'' details \<in> {Inr JUndefined, Inr JNull, Inl TypeError} \<longrightarrow>
        rendering_throws pos v"
    using no_participants_throws [of v name details rest pos] by blast
  show ?thesis
    by (rule conjI [OF 1 conjI [OF 2 conjI [OF 3 conjI [OF 4 5]]]])
qed

theorem fetchActivities_failure_branch_witness:
  "object_entries (JObj [(''detail'', JStr ''Internal Server Error'')])
     = Inr ((''detail'', JStr ''Internal Server Error'') # [])
   \<and> get_prop ''participants'' (JStr ''Internal Server Error'')
       \<in> {Inr JUndefined, Inr JNull, Inl TypeError}
   \<and> rendering_throws decimal_pos (JObj [(''detail'', JStr ''Internal Server Error'')])
   \<and> console
       (fetchActivities decimal_pos
          (Resolved \<lparr>status = 500, body = Some (JObj [(''detail'', JStr ''Internal Server Error'')])\<rparr>)
          page0)
     \<noteq> console page0
   \<and> activitiesList
       (fetchActivities decimal_pos
          (Resolved \<lparr>status = 500, body = Some (JObj [(''detail'', JStr ''Internal Server Error'')])\<rparr>)
          page0)
     = [Markup ''<p>Failed to load activities. Please try again later.</p>'']
   \<and> fetchActivities decimal_pos
       (Resolved \<lparr>status = 500, body = Some (snapshot_json [(''Chess Club'', chess_full)])\<rparr>) page0
     = fetchActivities decimal_pos
       (Resolved \<lparr>status = 200, body = Some (snapshot_json [(''Chess Club'', chess_full)])\<rparr>) page0
   \<and> console
       (fetchActivities decimal_pos
          (Resolved \<lparr>status = 500, body = Some (snapshot_json [(''Chess Club'', chess_full)])\<rparr>) page0)
     = console page0"
proof -
  let ?v = "JObj [(''detail'', JStr ''Internal Server Error'')]"
  let ?r = "\<lparr>status = 500, body = Some ?v\<rparr>"
  have h: "object_entries ?v = Inr ((''detail'', JStr ''Internal Server Error'') # [])
           \<and> get_prop ''participants'' (JStr ''Internal Server Error'')
               \<in> {Inr JUndefined, Inr JNull, Inl TypeError}"
    by simp
  note t = fetchActivities_failure_branch
      [of decimal_pos 500 "Some (snapshot_json [(''Chess Club'', chess_full)])" page0 200
          "Resolved ?r" "[(''Chess Club'', chess_full)]" ?v "''detail''"
          "JStr ''Internal Server Error''" "[]"]
  from t have eq: "fetchActivities decimal_pos
       (Resolved \<lparr>status = 500, body = Some (snapshot_json [(''Chess Club'', chess_full)])\<rparr>) page0
     = fetchActivities decimal_pos
       (Resolved \<lparr>status = 200, body = Some (snapshot_json [(''Chess Club'', chess_full)])\<rparr>) page0"
    by (rule conjunct1)
  from t h have throws: "rendering_throws decimal_pos ?v"
    by blast
  have "\<exists>r. Resolved ?r = Resolved r \<and>
          (body r = None \<or> (\<exists>v. body r = Some v \<and> rendering_throws decimal_pos v))"
    using throws by (intro exI [of _ ?r]) simp
  with t have failed: "console (fetchActivities decimal_pos (Resolved ?r) page0) \<noteq> console page0"
    by blast
  with t have list: "activitiesList (fetchActivities decimal_pos (Resolved ?r) page0)
     = [Markup ''<p>Failed to load activities. Please try again later.</p>'']"
    by blast
  from t have quiet: "console
       (fetchActivities decimal_pos
          (Resolved \<lparr>status = 500, body = Some (snapshot_json [(''Chess Club'', chess_full)])\<rparr>) page0)
     = console page0"
    by blast
  from h throws failed list eq quiet show ?thesis
    by blast
qed

section \<open>The transient message\<close>

lemma class_tokens_message [simp]:
  "class_tokens ''message error'' = [''message'', ''error'']"
  "class_tokens ''message success'' = [''message'', ''success'']"
  by (simp_all add: class_tokens_def is_space_def)

lemma showMessage_fields [simp]:
  "textContent (messageDiv (showMessage text type st)) = text"
  "classList (messageDiv (showMessage text type st)) =
     classList_remove ''hidden'' (class_tokens (''message '' @ type))"
  "timers (showMessage text type st) = timers st @ [now st + 5000]"
  "now (showMessage text type st) = now st"
  "requests (showMessage text type st) = requests st"
  "signupForm (showMessage text type st) = signupForm st"
  "email_input (showMessage text type st) = email_input st"
  "email_defaultValue (showMessage text type st) = email_defaultValue st"
  "console (showMessage text type st) = console st"
  "activities (showMessage text type st) = activities st"
  "activitiesList (showMessage text type st) = activitiesList st"
  "activitySelect (showMessage text type st) = activitySelect st"
  by (simp_all add: showMessage_def setTimeout_hide_def signupForm_def)

lemma visible_showMessage [simp]: "visible (showMessage text type st)"
  by (simp add: visible_def classList_remove_def)

lemma visible_advance:
  "visible (advance d st) \<longleftrightarrow> visible st \<and> (\<forall>t \<in> set (timers st). now st + d < t)"
  by (auto simp add: visible_def advance_def Let_def classList_add_def filter_empty_conv not_le)

text \<open>
  Claim C2 says that a call of \<^verbatim>\<open>showMessage\<close> while an earlier message is still
  visible restarts the hide timer, so that the new message stays visible for a full
  five seconds and no earlier pending timer hides it sooner. \<^verbatim>\<open>showMessage\<close> sets a
  new timer and cancels none (the script never calls \<^verbatim>\<open>clearTimeout\<close>). A first
  message is shown at time 0 and a second one at time 3000, while the first is still
  visible; the timer of the first message fires at time 5000 and hides the second
  message two seconds after it was shown.
\<close>

theorem showMessage_hidden_early_counterexample:
  "visible (advance 3000 (showMessage ''first'' ''error'' page0))
   \<and> textContent (messageDiv (showMessage ''second'' ''success''
        (advance 3000 (showMessage ''first'' ''error'' page0)))) = ''second''
   \<and> visible (showMessage ''second'' ''success''
        (advance 3000 (showMessage ''first'' ''error'' page0)))
   \<and> \<not> visible (advance 2000 (showMessage ''second'' ''success''
        (advance 3000 (showMessage ''first'' ''error'' page0))))"
proof -
  have t0: "timers page0 = []" "now page0 = 0"
    by (simp_all add: page0_def)
  have t1: "timers (advance 3000 (showMessage ''first'' ''error'' page0)) = [5000]"
       "now (advance 3000 (showMessage ''first'' ''error'' page0)) = 3000"
    by (simp_all add: advance_def Let_def t0)
  show ?thesis
    by (simp add: visible_advance t0 t1)
qed

text \<open>
  Claim C2 as amended: every call of \<^verbatim>\<open>showMessage\<close> replaces the content and the
  class of the message element, makes the message visible and sets one more hide timer
  for five seconds later; the pending timers stay (no timer is restarted) and no
  message is queued. With no other event, the new message is visible exactly until the
  earliest pending timer fires: after \<open>d\<close> milliseconds it is visible if and only if
  \<open>d\<close> is less than 5000 and no timer that was pending at the call is due by then. So
  it stays for the full five seconds exactly when no earlier timer is due sooner.
\<close>

theorem showMessage_visible_until_first_timer:
  "textContent (messageDiv (showMessage text type st)) = text
   \<and> classList (messageDiv (showMessage text type st)) =
       classList_remove ''hidden'' (class_tokens (''message '' @ type))
   \<and> visible (showMessage text type st)
   \<and> timers (showMessage text type st) = timers st @ [now st + 5000]
   \<and> (visible (advance d (showMessage text type st)) \<longleftrightarrow>
        d < 5000 \<and> (\<forall>t \<in> set (timers st). now st + d < t))"
  by (auto simp add: visible_advance)

theorem showMessage_visible_until_first_timer_witness:
  "classList (messageDiv (showMessage ''Successfully signed up!'' ''success'' page0))
     = [''message'', ''success'']
   \<and> visible (advance 4999 (showMessage ''Successfully signed up!'' ''success'' page0))
   \<and> \<not> visible (advance 5000 (showMessage ''Successfully signed up!'' ''success'' page0))
   \<and> \<not> visible (advance 2000 (showMessage ''second'' ''success''
                   (advance 3000 (showMessage ''first'' ''error'' page0))))"
proof -
  have t0: "timers page0 = []" "now page0 = 0"
    by (simp_all add: page0_def)
  have t1: "timers (advance 3000 (showMessage ''first'' ''error'' page0)) = [5000]"
       "now (advance 3000 (showMessage ''first'' ''error'' page0)) = 3000"
    by (simp_all add: advance_def Let_def t0)
  show ?thesis
    using showMessage_visible_until_first_timer
            [of "''Successfully signed up!''" "''success''" page0 4999]
          showMessage_visible_until_first_timer
            [of "''Successfully signed up!''" "''success''" page0 5000]
          showMessage_visible_until_first_timer
            [of "''second''" "''success''" "advance 3000 (showMessage ''first'' ''error'' page0)" 2000]
    by (simp add: t0 t1 classList_remove_def)
qed

section \<open>The claims about the submit handler\<close>

lemma submit_finish_fields [simp]:
  "textContent (messageDiv (submit_finish st)) = textContent (messageDiv st)"
  "classList (messageDiv (submit_finish st)) = classList_remove ''hidden'' (classList (messageDiv st))"
  "timers (submit_finish st) = timers st @ [now st + 5000]"
  "requests (submit_finish st) = requests st"
  "signupForm (submit_finish st) = signupForm st"
  "email_input (submit_finish st) = email_input st"
  "console (submit_finish st) = console st"
  "activities (submit_finish st) = activities st"
  "activitiesList (submit_finish st) = activitiesList st"
  "activitySelect (submit_finish st) = activitySelect st"
  by (simp_all add: submit_finish_def setTimeout_hide_def signupForm_def)

lemma visible_submit_finish [simp]: "visible (submit_finish st)"
  by (simp add: visible_def classList_remove_def)

lemma submit_catch_fields [simp]:
  "textContent (messageDiv (submit_catch e st)) = ''Failed to sign up. Please try again.''"
  "classList (messageDiv (submit_catch e st)) = [''message'', ''error'']"
  "requests (submit_catch e st) = requests st"
  "signupForm (submit_catch e st) = signupForm st"
  "console (submit_catch e st) = console st @ [(''Error signing up:'', e)]"
  by (simp_all add: submit_catch_def classList_remove_def signupForm_def)

lemma visible_submit_catch [simp]: "visible (submit_catch e st)"
  by (simp add: visible_def)

lemma signup_request_encodable:
  "\<not> lone_surrogate activity \<Longrightarrow> \<not> lone_surrogate email \<Longrightarrow>
   signup_request activity email =
     Inr \<lparr>http_method = ''POST'',
          url = ''/activities/'' @ concat (map percent_encode activity) @ ''/signup?email='' @
                concat (map percent_encode email)\<rparr>"
  by (simp add: signup_request_def encodeURIComponent_def)

lemma signup_request_lone_surrogate:
  "lone_surrogate activity \<or> lone_surrogate email \<Longrightarrow>
   signup_request activity email = Inl URIError"
  by (auto simp add: signup_request_def encodeURIComponent_def)

text \<open>
  With both fields filled and free of lone surrogates, the handler issues the request
  and goes on with what the request comes to.
\<close>

lemma submit_filled:
  "email_value (signupForm st) \<noteq> [] \<Longrightarrow> activity_value (signupForm st) \<noteq> [] \<Longrightarrow>
   \<not> lone_surrogate (email_value (signupForm st)) \<Longrightarrow>
   \<not> lone_surrogate (activity_value (signupForm st)) \<Longrightarrow>
   submit outcome st =
     submit_response outcome
       (st\<lparr>requests := requests st @
            [\<lparr>http_method = ''POST'',
              url = ''/activities/'' @
                    concat (map percent_encode (activity_value (signupForm st))) @
                    ''/signup?email='' @
                    concat (map percent_encode (email_value (signupForm st)))\<rparr>]\<rparr>)"
  by (simp add: submit_def submit_begin_def Let_def signup_request_encodable)

lemma signupForm_requests_update [simp]:
  "signupForm (st\<lparr>requests := rs\<rparr>) = signupForm st"
  by (simp add: signupForm_def)

text \<open>
  Claim C5: when the activity field or the email field is the empty string, the submit
  handler shows the validation message and returns: the handler does what
  \<^verbatim>\<open>showMessage\<close> does and nothing else, so it issues no request and leaves the
  form as it is.
\<close>

theorem submit_missing_field:
  "email_value (signupForm st) = [] \<or> activity_value (signupForm st) = [] \<Longrightarrow>
   submit outcome st = showMessage ''Please fill in all fields'' ''error'' st
   \<and> textContent (messageDiv (submit outcome st)) = ''Please fill in all fields''
   \<and> classList (messageDiv (submit outcome st)) = [''message'', ''error'']
   \<and> visible (submit outcome st)
   \<and> requests (submit outcome st) = requests st
   \<and> signupForm (submit outcome st) = signupForm st"
  by (auto simp add: submit_def submit_begin_def Let_def classList_remove_def)

theorem submit_missing_field_witness:
  "(email_value (signupForm (page0\<lparr>email_input := ''ada@mergington.edu''\<rparr>)) = []
      \<or> activity_value (signupForm (page0\<lparr>email_input := ''ada@mergington.edu''\<rparr>)) = [])
   \<and> textContent (messageDiv (submit Rejected (page0\<lparr>email_input := ''ada@mergington.edu''\<rparr>)))
       = ''Please fill in all fields''
   \<and> requests (submit Rejected (page0\<lparr>email_input := ''ada@mergington.edu''\<rparr>)) = []
   \<and> signupForm (submit Rejected (page0\<lparr>email_input := ''ada@mergington.edu''\<rparr>))
       = \<lparr>email_value = ''ada@mergington.edu'', activity_value = ''''\<rparr>"
proof -
  have f: "signupForm (page0\<lparr>email_input := ''ada@mergington.edu''\<rparr>)
             = \<lparr>email_value = ''ada@mergington.edu'', activity_value = ''''\<rparr>"
    by (simp add: signupForm_def page0_def select_value_def)
  have h: "email_value (signupForm (page0\<lparr>email_input := ''ada@mergington.edu''\<rparr>)) = []
      \<or> activity_value (signupForm (page0\<lparr>email_input := ''ada@mergington.edu''\<rparr>)) = []"
    by (simp add: f)
  have r: "requests (page0\<lparr>email_input := ''ada@mergington.edu''\<rparr>) = []"
    by (simp add: page0_def)
  from submit_missing_field [OF h, of Rejected] h f r show ?thesis
    by simp
qed

subsection \<open>The example page\<close>

lemma loaded_page_fields:
  "activitySelect loaded_page =
     [\<lparr>ovalue = ''Chess Club'', otextContent = ''Chess Club'', selected = True,
       defaultSelected = False, disabled = False\<rparr>]"
  "requests loaded_page = [\<lparr>http_method = ''GET'', url = ''/activities''\<rparr>]"
  "email_defaultValue loaded_page = ''''"
  "console loaded_page = []"
  by (simp_all add: loaded_page_def fetchActivities_snapshot page0_def appendChild_option_def
        selectedness_setting_def new_option_def get_activities_def)

lemma filled_page_fields:
  "signupForm filled_page = filled_form"
  "requests filled_page = [\<lparr>http_method = ''GET'', url = ''/activities''\<rparr>]"
  "email_defaultValue filled_page = ''''"
  "activitySelect filled_page = activitySelect loaded_page"
  "email_input filled_page = ''ada@mergington.edu''"
  by (simp_all add: filled_page_def signupForm_def loaded_page_fields select_value_def
        filled_form_def)

lemma filled_form_encodable:
  "\<not> lone_surrogate (email_value filled_form)" "\<not> lone_surrogate (activity_value filled_form)"
  "email_value filled_form \<noteq> []" "activity_value filled_form \<noteq> []"
  by (simp_all add: filled_form_def)

lemma filled_form_url:
  "''/activities/'' @ concat (map percent_encode (activity_value filled_form)) @
   ''/signup?email='' @ concat (map percent_encode (email_value filled_form))
     = ''/activities/Chess%20Club/signup?email=ada%40mergington.edu''"
  by (simp add: filled_form_def percent_encode_def unreserved_def hex_digit_def)

lemma broken_email_lone_surrogate: "lone_surrogate broken_email" "broken_email \<noteq> []"
  by (simp_all add: broken_email_def)

text \<open>
  Claim C4 says that with both fields filled the handler issues the signup request,
  and that on a 2xx response it shows the success message, resets the form and reloads
  the list. Two things stand against it. The handler parses the body of the response
  (line 92) before it looks at the status (line 94): on a 2xx response whose body is
  not JSON it ends in its \<^verbatim>\<open>catch\<close> clause, shows the failure message, keeps the
  form and reloads nothing. And the request is built inside the \<^verbatim>\<open>try\<close> block:
  when a field holds a surrogate without its partner, \<^verbatim>\<open>encodeURIComponent\<close> throws
  and the handler shows the failure message without issuing any request.
\<close>

theorem submit_unparsed_success_counterexample:
  "email_value (signupForm filled_page) \<noteq> [] \<and> activity_value (signupForm filled_page) \<noteq> []
   \<and> ok \<lparr>status = 200, body = None\<rparr>
   \<and> textContent (messageDiv (submit (Resolved \<lparr>status = 200, body = None\<rparr>) filled_page))
       = ''Failed to sign up. Please try again.''
   \<and> signupForm (submit (Resolved \<lparr>status = 200, body = None\<rparr>) filled_page) = filled_form
   \<and> requests (submit (Resolved \<lparr>status = 200, body = None\<rparr>) filled_page)
       = requests filled_page @
         [\<lparr>http_method = ''POST'',
           url = ''/activities/Chess%20Club/signup?email=ada%40mergington.edu''\<rparr>]
   \<and> email_value (signupForm (loaded_page\<lparr>email_input := broken_email\<rparr>)) \<noteq> []
   \<and> activity_value (signupForm (loaded_page\<lparr>email_input := broken_email\<rparr>)) \<noteq> []
   \<and> requests (submit (Resolved \<lparr>status = 200, body = Some (JObj [])\<rparr>)
                 (loaded_page\<lparr>email_input := broken_email\<rparr>))
       = requests (loaded_page\<lparr>email_input := broken_email\<rparr>)
   \<and> textContent (messageDiv (submit (Resolved \<lparr>status = 200, body = Some (JObj [])\<rparr>)
                 (loaded_page\<lparr>email_input := broken_email\<rparr>)))
       = ''Failed to sign up. Please try again.''"
proof -
  have a: "submit (Resolved \<lparr>status = 200, body = None\<rparr>) filled_page =
      submit_catch JsonSyntaxError
        (filled_page\<lparr>requests := requests filled_page @
            [\<lparr>http_method = ''POST'',
              url = ''/activities/Chess%20Club/signup?email=ada%40mergington.edu''\<rparr>]\<rparr>)"
    using submit_filled [of filled_page "Resolved \<lparr>status = 200, body = None\<rparr>",
            unfolded filled_page_fields(1) filled_form_url, OF filled_form_encodable(3,4,1,2)]
    by (simp add: submit_response_def)
  have f: "signupForm (loaded_page\<lparr>email_input := broken_email\<rparr>)
             = \<lparr>email_value = broken_email, activity_value = ''Chess Club''\<rparr>"
    by (simp add: signupForm_def loaded_page_fields select_value_def)
  have b: "submit (Resolved \<lparr>status = 200, body = Some (JObj [])\<rparr>)
             (loaded_page\<lparr>email_input := broken_email\<rparr>)
           = submit_catch URIError (loaded_page\<lparr>email_input := broken_email\<rparr>)"
    by (simp add: submit_def submit_begin_def Let_def f broken_email_lone_surrogate
          signup_request_lone_surrogate)
  show ?thesis
    by (simp add: a b f filled_page_fields filled_form_encodable ok_def
          broken_email_lone_surrogate)
qed

text \<open>
  Claim C4 as amended: with both fields filled and free of lone surrogates, the handler
  issues the signup request whatever the request then comes to; if the response is 2xx
  and its body parses as JSON, the handler shows the success message, resets the form
  (the email input goes back to the value of its markup, the select control is reset)
  and issues a new \<^verbatim>\<open>GET /activities\<close>, without touching the activities it holds,
  the list of cards or the options of the select control: what the page shows changes
  only when the reload is answered.
\<close>

theorem submit_success:
  "email_value (signupForm st) \<noteq> [] \<Longrightarrow> activity_value (signupForm st) \<noteq> [] \<Longrightarrow>
   \<not> lone_surrogate (email_value (signupForm st)) \<Longrightarrow>
   \<not> lone_surrogate (activity_value (signupForm st)) \<Longrightarrow>
   prefix (requests st @
             [\<lparr>http_method = ''POST'',
               url = ''/activities/'' @
                     concat (map percent_encode (activity_value (signupForm st))) @
                     ''/signup?email='' @
                     concat (map percent_encode (email_value (signupForm st)))\<rparr>])
          (requests (submit outcome st))
   \<and> (ok r \<and> body r = Some result \<longrightarrow>
        textContent (messageDiv (submit (Resolved r) st)) = ''Successfully signed up!''
        \<and> classList (messageDiv (submit (Resolved r) st)) = [''message'', ''success'']
        \<and> visible (submit (Resolved r) st)
        \<and> email_input (submit (Resolved r) st) = email_defaultValue st
        \<and> activitySelect (submit (Resolved r) st) = reset_select (activitySelect st)
        \<and> signupForm (submit (Resolved r) st) =
            \<lparr>email_value = email_defaultValue st,
             activity_value = select_value (reset_select (activitySelect st))\<rparr>
        \<and> requests (submit (Resolved r) st) =
            requests st @
              [\<lparr>http_method = ''POST'',
                url = ''/activities/'' @
                      concat (map percent_encode (activity_value (signupForm st))) @
                      ''/signup?email='' @
                      concat (map percent_encode (email_value (signupForm st)))\<rparr>,
               \<lparr>http_method = ''GET'', url = ''/activities''\<rparr>]
        \<and> activities (submit (Resolved r) st) = activities st
        \<and> activitiesList (submit (Resolved r) st) = activitiesList st
        \<and> map ovalue (activitySelect (submit (Resolved r) st)) = map ovalue (activitySelect st))"
proof (intro conjI impI)
  assume f: "email_value (signupForm st) \<noteq> []" "activity_value (signupForm st) \<noteq> []"
    "\<not> lone_surrogate (email_value (signupForm st))"
    "\<not> lone_surrogate (activity_value (signupForm st))"
  let ?post = "\<lparr>http_method = ''POST'',
                url = ''/activities/'' @
                      concat (map percent_encode (activity_value (signupForm st))) @
                      ''/signup?email='' @
                      concat (map percent_encode (email_value (signupForm st)))\<rparr>"
  show "prefix (requests st @ [?post]) (requests (submit outcome st))"
    by (simp add: submit_filled [OF f] submit_response_def fetchActivities_request_def
          form_reset_def split: fetch_outcome.split option.split sum.split)
  assume r: "ok r \<and> body r = Some result"
  have s: "submit (Resolved r) st =
      submit_finish (fetchActivities_request (form_reset
        (showMessage ''Successfully signed up!'' ''success''
          (st\<lparr>requests := requests st @ [?post]\<rparr>))))"
    using r by (simp add: submit_filled [OF f] submit_response_def)
  show "textContent (messageDiv (submit (Resolved r) st)) = ''Successfully signed up!''"
    by (simp add: s fetchActivities_request_def form_reset_def)
  show "classList (messageDiv (submit (Resolved r) st)) = [''message'', ''success'']"
    by (simp add: s fetchActivities_request_def form_reset_def classList_remove_def)
  show "visible (submit (Resolved r) st)"
    by (simp add: s)
  show e: "email_input (submit (Resolved r) st) = email_defaultValue st"
    by (simp add: s fetchActivities_request_def form_reset_def)
  show o: "activitySelect (submit (Resolved r) st) = reset_select (activitySelect st)"
    by (simp add: s fetchActivities_request_def form_reset_def)
  show "signupForm (submit (Resolved r) st) =
            \<lparr>email_value = email_defaultValue st,
             activity_value = select_value (reset_select (activitySelect st))\<rparr>"
    by (simp add: signupForm_def [of "submit (Resolved r) st"] e o)
  show "requests (submit (Resolved r) st) =
            requests st @ [?post, \<lparr>http_method = ''GET'', url = ''/activities''\<rparr>]"
    by (simp add: s fetchActivities_request_def form_reset_def)
  show "activities (submit (Resolved r) st) = activities st"
    by (simp add: s fetchActivities_request_def form_reset_def)
  show "activitiesList (submit (Resolved r) st) = activitiesList st"
    by (simp add: s fetchActivities_request_def form_reset_def)
  show "map ovalue (activitySelect (submit (Resolved r) st)) = map ovalue (activitySelect st)"
    by (simp add: o)
qed

theorem submit_success_witness:
  "email_value (signupForm filled_page) \<noteq> []
   \<and> activity_value (signupForm filled_page) \<noteq> []
   \<and> \<not> lone_surrogate (email_value (signupForm filled_page))
   \<and> \<not> lone_surrogate (activity_value (signupForm filled_page))
   \<and> ok \<lparr>status = 200, body = Some (JObj [(''message'', JStr ''Signed up'')])\<rparr>
   \<and> body \<lparr>status = 200, body = Some (JObj [(''message'', JStr ''Signed up'')])\<rparr>
       = Some (JObj [(''message'', JStr ''Signed up'')])
   \<and> signupForm filled_page
       = \<lparr>email_value = ''ada@mergington.edu'', activity_value = ''Chess Club''\<rparr>
   \<and> textContent (messageDiv
         (submit (Resolved \<lparr>status = 200, body = Some (JObj [(''message'', JStr ''Signed up'')])\<rparr>)
            filled_page))
       = ''Successfully signed up!''
   \<and> signupForm
         (submit (Resolved \<lparr>status = 200, body = Some (JObj [(''message'', JStr ''Signed up'')])\<rparr>)
            filled_page)
       = \<lparr>email_value = '''', activity_value = ''Chess Club''\<rparr>
   \<and> requests
         (submit (Resolved \<lparr>status = 200, body = Some (JObj [(''message'', JStr ''Signed up'')])\<rparr>)
            filled_page)
       = [\<lparr>http_method = ''GET'', url = ''/activities''\<rparr>,
          \<lparr>http_method = ''POST'',
           url = ''/activities/Chess%20Club/signup?email=ada%40mergington.edu''\<rparr>,
          \<lparr>http_method = ''GET'', url = ''/activities''\<rparr>]"
proof -
  let ?r = "\<lparr>status = 200, body = Some (JObj [(''message'', JStr ''Signed up'')])\<rparr>"
  have form: "signupForm filled_page = filled_form"
    by (rule filled_page_fields(1))
  have f: "email_value (signupForm filled_page) \<noteq> []"
          "activity_value (signupForm filled_page) \<noteq> []"
          "\<not> lone_surrogate (email_value (signupForm filled_page))"
          "\<not> lone_surrogate (activity_value (signupForm filled_page))"
    by (simp_all add: form filled_form_encodable)
  have r: "ok ?r \<and> body ?r = Some (JObj [(''message'', JStr ''Signed up'')])"
    by (simp add: ok_def)
  have sel: "select_value (reset_select (activitySelect filled_page)) = ''Chess Club''"
    by (simp add: filled_page_fields loaded_page_fields reset_select_def selectedness_setting_def
          select_value_def)
  note t = submit_success [OF f, of Rejected ?r "JObj [(''message'', JStr ''Signed up'')]",
             THEN conjunct2, rule_format, OF r, unfolded form filled_form_url]
  from t have 1: "textContent (messageDiv (submit (Resolved ?r) filled_page))
                    = ''Successfully signed up!''"
    by (elim conjE)
  from t have "signupForm (submit (Resolved ?r) filled_page) =
            \<lparr>email_value = email_defaultValue filled_page,
             activity_value = select_value (reset_select (activitySelect filled_page))\<rparr>"
    by (elim conjE)
  then have 2: "signupForm (submit (Resolved ?r) filled_page)
                  = \<lparr>email_value = '''', activity_value = ''Chess Club''\<rparr>"
    by (simp only: sel filled_page_fields(3))
  from t have "requests (submit (Resolved ?r) filled_page) =
            requests filled_page @
              [\<lparr>http_method = ''POST'',
                url = ''/activities/Chess%20Club/signup?email=ada%40mergington.edu''\<rparr>,
               \<lparr>http_method = ''GET'', url = ''/activities''\<rparr>]"
    by (elim conjE)
  then have 3: "requests (submit (Resolved ?r) filled_page)
       = [\<lparr>http_method = ''GET'', url = ''/activities''\<rparr>,
          \<lparr>http_method = ''POST'',
           url = ''/activities/Chess%20Club/signup?email=ada%40mergington.edu''\<rparr>,
          \<lparr>http_method = ''GET'', url = ''/activities''\<rparr>]"
    by (simp add: filled_page_fields)
  have 0: "signupForm filled_page
       = \<lparr>email_value = ''ada@mergington.edu'', activity_value = ''Chess Club''\<rparr>"
    by (simp add: form filled_form_def)
  from f r 0 1 2 3 show ?thesis
    by (intro conjI) (elim conjE, assumption)+
qed

lemma submit_unencodable:
  "email_value (signupForm st) \<noteq> [] \<Longrightarrow> activity_value (signupForm st) \<noteq> [] \<Longrightarrow>
   lone_surrogate (email_value (signupForm st)) \<or> lone_surrogate (activity_value (signupForm st)) \<Longrightarrow>
   submit outcome st = submit_catch URIError st"
  using signup_request_lone_surrogate
          [of "activity_value (signupForm st)" "email_value (signupForm st)"]
  by (auto simp add: submit_def submit_begin_def Let_def)

text \<open>
  Claim C6: when a signup fails, the handler shows the detail message of the server if
  the response body has one, and a generic message otherwise, and it never resets the
  form. The cases, for a submission with both fields filled: the fetch rejects or the
  body does not parse (generic message of the \<^verbatim>\<open>catch\<close> clause); the response is
  not 2xx and its body carries a non-empty \<^verbatim>\<open>detail\<close> string (the detail is shown);
  more generally a \<^verbatim>\<open>detail\<close> that is truthy is shown as the string it converts to;
  the response is not 2xx and \<^verbatim>\<open>detail\<close> is absent or falsy, the empty string
  included (generic message \<^verbatim>\<open>An error occurred\<close>); reading or converting the detail
  throws (generic message of the \<^verbatim>\<open>catch\<close> clause). In every case the message is
  visible and the form keeps its values. The three cases in which something other
  than the message of the \<^verbatim>\<open>catch\<close> clause is shown are those of a response that
  was read: they are stated for fields free of lone surrogates, for which the request
  is issued.
\<close>

theorem submit_failure:
  "email_value (signupForm st) \<noteq> [] \<Longrightarrow> activity_value (signupForm st) \<noteq> [] \<Longrightarrow>
   (textContent (messageDiv (submit Rejected st)) = ''Failed to sign up. Please try again.''
      \<and> visible (submit Rejected st)
      \<and> signupForm (submit Rejected st) = signupForm st)
   \<and> (body r = None \<longrightarrow>
        textContent (messageDiv (submit (Resolved r) st)) = ''Failed to sign up. Please try again.''
        \<and> visible (submit (Resolved r) st)
        \<and> signupForm (submit (Resolved r) st) = signupForm st)
   \<and> (\<not> lone_surrogate (email_value (signupForm st)) \<and>
      \<not> lone_surrogate (activity_value (signupForm st)) \<longrightarrow>
        (\<not> ok r \<and> body r = Some (JObj kvs) \<and> map_of kvs ''detail'' = Some (JStr s) \<and> s \<noteq> [] \<longrightarrow>
           textContent (messageDiv (submit (Resolved r) st)) = s
           \<and> visible (submit (Resolved r) st)
           \<and> signupForm (submit (Resolved r) st) = signupForm st)
        \<and> (\<not> ok r \<and> body r = Some result \<and> get_prop ''detail'' result = Inr d \<and> truthy d \<and>
           to_string d = Inr s \<longrightarrow>
             textContent (messageDiv (submit (Resolved r) st)) = s
             \<and> visible (submit (Resolved r) st)
             \<and> signupForm (submit (Resolved r) st) = signupForm st)
        \<and> (\<not> ok r \<and> body r = Some result \<and> get_prop ''detail'' result = Inr d \<and> \<not> truthy d \<longrightarrow>
             textContent (messageDiv (submit (Resolved r) st)) = ''An error occurred''
             \<and> visible (submit (Resolved r) st)
             \<and> signupForm (submit (Resolved r) st) = signupForm st))
   \<and> (\<not> ok r \<and> body r = Some result \<and>
      (get_prop ''detail'' result = Inl e \<or>
       get_prop ''detail'' result = Inr d \<and> truthy d \<and> to_string d = Inl e) \<longrightarrow>
        textContent (messageDiv (submit (Resolved r) st)) = ''Failed to sign up. Please try again.''
        \<and> visible (submit (Resolved r) st)
        \<and> signupForm (submit (Resolved r) st) = signupForm st)"
proof -
  assume n: "email_value (signupForm st) \<noteq> []" "activity_value (signupForm st) \<noteq> []"
  have 345: "(\<not> ok r \<and> body r = Some (JObj kvs) \<and> map_of kvs ''detail'' = Some (JStr s) \<and> s \<noteq> [] \<longrightarrow>
           textContent (messageDiv (submit (Resolved r) st)) = s
           \<and> visible (submit (Resolved r) st)
           \<and> signupForm (submit (Resolved r) st) = signupForm st)
        \<and> (\<not> ok r \<and> body r = Some result \<and> get_prop ''detail'' result = Inr d \<and> truthy d \<and>
           to_string d = Inr s \<longrightarrow>
             textContent (messageDiv (submit (Resolved r) st)) = s
             \<and> visible (submit (Resolved r) st)
             \<and> signupForm (submit (Resolved r) st) = signupForm st)
        \<and> (\<not> ok r \<and> body r = Some result \<and> get_prop ''detail'' result = Inr d \<and> \<not> truthy d \<longrightarrow>
             textContent (messageDiv (submit (Resolved r) st)) = ''An error occurred''
             \<and> visible (submit (Resolved r) st)
             \<and> signupForm (submit (Resolved r) st) = signupForm st)"
    if e: "\<not> lone_surrogate (email_value (signupForm st)) \<and>
           \<not> lone_surrogate (activity_value (signupForm st))"
  proof -
    note f = submit_filled [OF n conjunct1 [OF e] conjunct2 [OF e]]
    show ?thesis
      by (simp add: f submit_response_def)
  qed
  have 126: "(textContent (messageDiv (submit Rejected st)) = ''Failed to sign up. Please try again.''
      \<and> visible (submit Rejected st)
      \<and> signupForm (submit Rejected st) = signupForm st)
   \<and> (body r = None \<longrightarrow>
        textContent (messageDiv (submit (Resolved r) st)) = ''Failed to sign up. Please try again.''
        \<and> visible (submit (Resolved r) st)
        \<and> signupForm (submit (Resolved r) st) = signupForm st)
   \<and> (\<not> ok r \<and> body r = Some result \<and>
      (get_prop ''detail'' result = Inl e \<or>
       get_prop ''detail'' result = Inr d \<and> truthy d \<and> to_string d = Inl e) \<longrightarrow>
        textContent (messageDiv (submit (Resolved r) st)) = ''Failed to sign up. Please try again.''
        \<and> visible (submit (Resolved r) st)
        \<and> signupForm (submit (Resolved r) st) = signupForm st)"
  proof (cases "lone_surrogate (email_value (signupForm st)) \<or>
                lone_surrogate (activity_value (signupForm st))")
    case True
    show ?thesis
      by (simp add: submit_unencodable [OF n True])
  next
    case False
    then have e: "\<not> lone_surrogate (email_value (signupForm st))"
        "\<not> lone_surrogate (activity_value (signupForm st))"
      by simp_all
    note f = submit_filled [OF n e]
    show ?thesis
      by (auto simp add: f submit_response_def)
  qed
  from 126 345 show ?thesis
    by blast
qed

theorem submit_failure_witness:
  "email_value (signupForm filled_page) \<noteq> []
   \<and> activity_value (signupForm filled_page) \<noteq> []
   \<and> \<not> lone_surrogate (email_value (signupForm filled_page))
   \<and> \<not> lone_surrogate (activity_value (signupForm filled_page))
   \<and> textContent (messageDiv (submit Rejected filled_page))
       = ''Failed to sign up. Please try again.''
   \<and> textContent (messageDiv (submit (Resolved \<lparr>status = 500, body = None\<rparr>) filled_page))
       = ''Failed to sign up. Please try again.''
   \<and> textContent (messageDiv
         (submit (Resolved \<lparr>status = 400,
                            body = Some (JObj [(''detail'', JStr ''Student is already signed up'')])\<rparr>)
            filled_page))
       = ''Student is already signed up''
   \<and> signupForm
         (submit (Resolved \<lparr>status = 400,
                            body = Some (JObj [(''detail'', JStr ''Student is already signed up'')])\<rparr>)
            filled_page)
       = filled_form
   \<and> textContent (messageDiv (submit (Resolved \<lparr>status = 404, body = Some (JObj [])\<rparr>) filled_page))
       = ''An error occurred''
   \<and> textContent (messageDiv (submit (Resolved \<lparr>status = 500, body = Some JNull\<rparr>) filled_page))
       = ''Failed to sign up. Please try again.''"
proof -
  have form: "signupForm filled_page = filled_form"
    by (rule filled_page_fields(1))
  have f: "email_value (signupForm filled_page) \<noteq> []"
          "activity_value (signupForm filled_page) \<noteq> []"
    by (simp_all add: form filled_form_encodable)
  have g: "\<not> lone_surrogate (email_value (signupForm filled_page))"
          "\<not> lone_surrogate (activity_value (signupForm filled_page))"
    by (simp_all add: form filled_form_encodable)
  have a: "textContent (messageDiv (submit Rejected filled_page))
             = ''Failed to sign up. Please try again.''"
    using submit_failure [OF f, THEN conjunct1] by simp
  have b: "textContent (messageDiv (submit (Resolved \<lparr>status = 500, body = None\<rparr>) filled_page))
       = ''Failed to sign up. Please try again.''"
    using submit_failure [OF f, of "\<lparr>status = 500, body = None\<rparr>"] by simp
  have c: "textContent (messageDiv
         (submit (Resolved \<lparr>status = 400,
                            body = Some (JObj [(''detail'', JStr ''Student is already signed up'')])\<rparr>)
            filled_page))
       = ''Student is already signed up''
     \<and> signupForm
         (submit (Resolved \<lparr>status = 400,
                            body = Some (JObj [(''detail'', JStr ''Student is already signed up'')])\<rparr>)
            filled_page)
       = filled_form"
    using submit_failure [OF f,
            of "\<lparr>status = 400, body = Some (JObj [(''detail'', JStr ''Student is already signed up'')])\<rparr>"
               "[(''detail'', JStr ''Student is already signed up'')]"
               "''Student is already signed up''"]
    by (simp add: ok_def form filled_form_encodable)
  have d: "textContent (messageDiv (submit (Resolved \<lparr>status = 404, body = Some (JObj [])\<rparr>) filled_page))
       = ''An error occurred''"
    using submit_failure [OF f, of "\<lparr>status = 404, body = Some (JObj [])\<rparr>" _ _ "JObj []" JUndefined]
    by (simp add: ok_def form filled_form_encodable)
  have e: "textContent (messageDiv (submit (Resolved \<lparr>status = 500, body = Some JNull\<rparr>) filled_page))
       = ''Failed to sign up. Please try again.''"
    using submit_failure [OF f, of "\<lparr>status = 500, body = Some JNull\<rparr>" _ _ JNull _ TypeError]
    by (simp add: ok_def)
  from f g a b c d e show ?thesis
    by (intro conjI) (elim conjE, assumption)+
qed

section \<open>The claim about the directory\<close>

text \<open>
  Claim C3: for an activity name of the directory and an email that is not in the
  participant list of that activity, the sign-up succeeds with status 200 and a
  confirmation; afterwards the participant list of the activity is the earlier list
  with the email appended at its end, in which the email occurs exactly once, and no
  other activity has changed.
\<close>

theorem signup_appends_email:
  "dir name = Some a \<Longrightarrow> email \<notin> set (participants a) \<Longrightarrow>
   fst (signup dir name email) = Confirmation
   \<and> status_code (fst (signup dir name email)) = 200
   \<and> snd (signup dir name email) name = Some (a\<lparr>participants := participants a @ [email]\<rparr>)
   \<and> count_list (participants a @ [email]) email = 1
   \<and> (\<forall>other. other \<noteq> name \<longrightarrow> snd (signup dir name email) other = dir other)"
  by (simp add: signup_def status_code_def)

theorem signup_appends_email_witness:
  "[''Chess Club'' \<mapsto> chess_empty] ''Chess Club'' = Some chess_empty
   \<and> ''ada@mergington.edu'' \<notin> set (participants chess_empty)
   \<and> status_code (fst (signup [''Chess Club'' \<mapsto> chess_empty] ''Chess Club'' ''ada@mergington.edu'')) = 200
   \<and> map_option participants
        (snd (signup [''Chess Club'' \<mapsto> chess_empty] ''Chess Club'' ''ada@mergington.edu'') ''Chess Club'')
      = Some [''ada@mergington.edu'']"
proof -
  have h: "[''Chess Club'' \<mapsto> chess_empty] ''Chess Club'' = Some chess_empty"
          "''ada@mergington.edu'' \<notin> set (participants chess_empty)"
    by (simp_all add: chess_empty_def)
  note t = signup_appends_email
            [of "[''Chess Club'' \<mapsto> chess_empty]" "''Chess Club''" chess_empty
                "''ada@mergington.edu''", OF h]
  from t have c: "status_code
      (fst (signup [''Chess Club'' \<mapsto> chess_empty] ''Chess Club'' ''ada@mergington.edu'')) = 200"
    by (elim conjE)
  from t have "snd (signup [''Chess Club'' \<mapsto> chess_empty] ''Chess Club'' ''ada@mergington.edu'')
       ''Chess Club'' = Some (chess_empty\<lparr>participants := participants chess_empty @ [''ada@mergington.edu'']\<rparr>)"
    by (elim conjE)
  then have p: "map_option participants
        (snd (signup [''Chess Club'' \<mapsto> chess_empty] ''Chess Club'' ''ada@mergington.edu'') ''Chess Club'')
      = Some [''ada@mergington.edu'']"
    by (simp add: chess_empty_def)
  from h c p show ?thesis
    by (intro conjI)
qed

end
